theory Spec2Isabelle
  imports Complex_Main "HOL-Library.Sublist" "HOL-Library.Multiset"
begin

section \<open>Shared data: dates, manager data and localStorage\<close>

text \<open>
  JavaScript numbers are modelled as \<open>int\<close>: every counter of the program (XP, levels,
  steps, minutes) is an integer, and the model does not cover values beyond the range in
  which doubles are exact integers, nor \<open>NaN\<close>.

  A \<open>Date\<close> is an instant together with the calendar day it falls on in the browser's
  time zone: \<open>toDateString\<close> reads the local day, \<open>toISOString().split('T')[0]\<close> the UTC
  day. An instant written with \<open>toISOString\<close> and read back with \<open>new Date\<close> is the same
  instant, so stored time stamps are kept as dates.
\<close>

record jsdate =
  epochMs :: int
  localDay :: int

definition msPerDay :: int where
  "msPerDay = 86400000"

definition toDateString :: "jsdate \<Rightarrow> int" where
  "toDateString d = localDay d"

definition isoDateKey :: "jsdate \<Rightarrow> int" where
  "isoDateKey d = epochMs d div msPerDay"

text \<open>
  \<open>d.setDate(d.getDate() - n)\<close> moves \<open>d\<close> to the same wall-clock time \<open>n\<close> calendar days
  earlier, so \<open>toDateString\<close> then reads the local day \<open>n\<close> days before. Which instant
  that is, and so what \<open>toISOString\<close> reads, depends on the daylight-saving rules of the
  time zone: where the instant matters, the moved date is given by a parameter
  \<open>calendar\<close>, the browser's calendar arithmetic.
\<close>

definition daysBackString :: "jsdate \<Rightarrow> int \<Rightarrow> int" where
  "daysBackString d n = toDateString d - n"

subsection \<open>The data object of GamificationManager\<close>

record streak_data =
  current :: int
  longest :: int
  lastActivity :: "jsdate option"

record active_challenge =
  challengeId :: int
  joinedAt :: jsdate
  progress :: int

record challenges_data =
  completed :: int
  active :: "active_challenge list"

record stats_data =
  totalWorkouts :: int
  totalSteps :: int
  totalCalories :: int
  totalMinutes :: int
  pushups :: int
  squats :: int
  runDistance :: int

text \<open>History entries; the \<open>timestamp\<close> field of an entry is not modelled.\<close>

datatype history_entry =
  XpEntry int string
| BadgeEntry string int

record gdata =
  xp :: int
  level :: int
  streak :: streak_data
  badges :: "string list"
  challenges :: challenges_data
  stats :: stats_data
  history :: "history_entry list"

subsection \<open>The data object of ActivityTrackerManager\<close>

record activity_entry =
  actType :: string
  actDuration :: int
  actCalories :: int
  actSteps :: int
  actNotes :: string
  actTimestamp :: jsdate

record day_entry =
  daySteps :: int
  dayCalories :: int
  dayActiveMinutes :: int
  dayWater :: int
  dayWeight :: "rat option"
  dayActivities :: "activity_entry list"
  dayLastUpdated :: "jsdate option"

text \<open>
  \<open>days\<close> is keyed by the UTC date text \<open>YYYY-MM-DD\<close>, modelled by the day number
  \<open>isoDateKey\<close>; \<open>goals\<close> is keyed by the goal's name.
\<close>

record adata =
  days :: "int \<rightharpoonup> day_entry"
  goals :: "string \<rightharpoonup> int"
  trackingEnabled :: bool

subsection \<open>localStorage\<close>

text \<open>
  A stored value is the JSON text of a manager's data object; \<open>JSON.parse\<close> of
  \<open>JSON.stringify\<close> gives the data back, so the text is modelled by the data it encodes.
\<close>

datatype stored =
  GamificationJSON gdata
| ActivityJSON adata

type_synonym storage = "string \<rightharpoonup> stored"

section \<open>GamificationManager (js/gamification.js)\<close>

text \<open>
  The manager object, together with the \<open>localStorage\<close> of the window it runs in.
  The events it dispatches on \<open>window\<close> are not modelled: no listener of the program changes
  a manager's data or the storage.
\<close>

record gamification =
  data :: gdata
  levelThresholds :: "int list"
  localStorage :: storage

definition storageKey :: string where
  "storageKey = ''GamifyFit_gamification''"

definition save :: "gamification \<Rightarrow> gamification" where
  "save m = m\<lparr>localStorage := (localStorage m)(storageKey \<mapsto> GamificationJSON (data m))\<rparr>"

definition getDefaultData :: gdata where
  "getDefaultData =
     \<lparr>xp = 0, level = 1,
      streak = \<lparr>current = 0, longest = 0, lastActivity = None\<rparr>,
      badges = [],
      challenges = \<lparr>completed = 0, active = []\<rparr>,
      stats = \<lparr>totalWorkouts = 0, totalSteps = 0, totalCalories = 0, totalMinutes = 0,
               pushups = 0, squats = 0, runDistance = 0\<rparr>,
      history = []\<rparr>"

text \<open>
  \<open>generateLevelThresholds\<close>: the loop \<open>for (i = 1; i <= 50; i++)\<close> pushes
  \<open>thresholds[i - 1] + xpRequired\<close>. The summand
  \<open>Math.floor(100 * Math.pow(1.15, i - 1))\<close> is computed in double precision; it is the
  parameter \<open>xpRequired\<close>, a function of the loop index \<open>i\<close>.
\<close>

definition thresholds_push :: "(nat \<Rightarrow> int) \<Rightarrow> int list \<Rightarrow> nat \<Rightarrow> int list" where
  "thresholds_push xpRequired thresholds i = thresholds @ [thresholds ! (i - 1) + xpRequired i]"

definition generateLevelThresholds :: "(nat \<Rightarrow> int) \<Rightarrow> int list" where
  "generateLevelThresholds xpRequired = foldl (thresholds_push xpRequired) [0] [1..<51]"

text \<open>
  The value of the summand in exact arithmetic. The double-precision value can be one
  less: \<open>100 * 1.15\<close> is \<open>114.99999999999999\<close> there, so the summand at \<open>i = 2\<close> is 114
  and not 115. The properties below hold for every table of summands, or say what they
  need of it.
\<close>

definition xpRequired_exact :: "nat \<Rightarrow> int" where
  "xpRequired_exact i = \<lfloor>100 * (23 / 20 :: rat) ^ (i - 1)\<rfloor>"

text \<open>
  The constructor: \<open>load\<close> returns the saved data, or the default data when nothing is
  saved under the key. A value under the key that is not the JSON of a gamification data
  object has no model (\<open>None\<close>).
\<close>

definition load :: "storage \<Rightarrow> gdata option" where
  "load st =
     (case st storageKey of
        None \<Rightarrow> Some getDefaultData
      | Some (GamificationJSON d) \<Rightarrow> Some d
      | Some (ActivityJSON a) \<Rightarrow> None)"

definition GamificationManager :: "(nat \<Rightarrow> int) \<Rightarrow> storage \<Rightarrow> gamification option" where
  "GamificationManager xpRequired st =
     map_option
       (\<lambda>d. \<lparr>data = d, levelThresholds = generateLevelThresholds xpRequired, localStorage = st\<rparr>)
       (load st)"

definition levelTitles :: "(int \<times> string) list" where
  "levelTitles =
     [(1, ''Rookie''), (5, ''Beginner''), (10, ''Rising Star''), (15, ''Committed''),
      (20, ''Dedicated''), (25, ''Warrior''), (30, ''Champion''), (35, ''Elite''),
      (40, ''Master''), (45, ''Legend''), (50, ''GamifyFit Master'')]"

definition getLevelTitle :: "int \<Rightarrow> string" where
  "getLevelTitle lvl =
     foldl (\<lambda>title (l, t). if lvl \<ge> l then t else title) ''Rookie'' levelTitles"

text \<open>
  \<open>calculateLevel\<close>: the loop runs \<open>i\<close> from \<open>length - 1\<close> down to \<open>0\<close> and returns
  \<open>i + 1\<close> at the first threshold that \<open>xp\<close> reaches; the counter of the model is \<open>i + 1\<close>.
\<close>

fun calculateLevel_loop :: "int list \<Rightarrow> int \<Rightarrow> nat \<Rightarrow> int" where
  "calculateLevel_loop thresholds x 0 = 1"
| "calculateLevel_loop thresholds x (Suc i) =
     (if x \<ge> thresholds ! i then int i + 1 else calculateLevel_loop thresholds x i)"

definition calculateLevel :: "int list \<Rightarrow> int \<Rightarrow> int" where
  "calculateLevel thresholds x = calculateLevel_loop thresholds x (length thresholds)"

subsection \<open>Badges\<close>

record badge =
  badgeId :: string
  badgeName :: string
  badgeXp :: int
  tier :: string
  category :: string
  condition :: "gdata \<Rightarrow> bool"

text \<open>
  The badge table in the order of its keys. A condition receives the data object (the
  level badges read it through the manager).
\<close>

definition getBadgeDefinitions :: "badge list" where
  "getBadgeDefinitions =
     [\<lparr>badgeId = ''first_workout'', badgeName = ''First Steps'', badgeXp = 25, tier = ''bronze'',
        category = ''fitness'', condition = (\<lambda>d. totalWorkouts (stats d) \<ge> 1)\<rparr>,
      \<lparr>badgeId = ''workout_10'', badgeName = ''Dedicated'', badgeXp = 100, tier = ''silver'',
        category = ''fitness'', condition = (\<lambda>d. totalWorkouts (stats d) \<ge> 10)\<rparr>,
      \<lparr>badgeId = ''workout_50'', badgeName = ''Fitness Enthusiast'', badgeXp = 300, tier = ''gold'',
        category = ''fitness'', condition = (\<lambda>d. totalWorkouts (stats d) \<ge> 50)\<rparr>,
      \<lparr>badgeId = ''workout_100'', badgeName = ''Fitness Master'', badgeXp = 500, tier = ''platinum'',
        category = ''fitness'', condition = (\<lambda>d. totalWorkouts (stats d) \<ge> 100)\<rparr>,
      \<lparr>badgeId = ''streak_7'', badgeName = ''On Fire'', badgeXp = 100, tier = ''silver'',
        category = ''streaks'', condition = (\<lambda>d. longest (streak d) \<ge> 7)\<rparr>,
      \<lparr>badgeId = ''streak_30'', badgeName = ''Unstoppable'', badgeXp = 500, tier = ''gold'',
        category = ''streaks'', condition = (\<lambda>d. longest (streak d) \<ge> 30)\<rparr>,
      \<lparr>badgeId = ''streak_100'', badgeName = ''Legendary'', badgeXp = 1000, tier = ''diamond'',
        category = ''streaks'', condition = (\<lambda>d. longest (streak d) \<ge> 100)\<rparr>,
      \<lparr>badgeId = ''challenge_5'', badgeName = ''Goal Getter'', badgeXp = 75, tier = ''bronze'',
        category = ''challenges'', condition = (\<lambda>d. completed (challenges d) \<ge> 5)\<rparr>,
      \<lparr>badgeId = ''challenge_25'', badgeName = ''Challenge Champion'', badgeXp = 300, tier = ''gold'',
        category = ''challenges'', condition = (\<lambda>d. completed (challenges d) \<ge> 25)\<rparr>,
      \<lparr>badgeId = ''level_10'', badgeName = ''Rising Star'', badgeXp = 200, tier = ''silver'',
        category = ''special'', condition = (\<lambda>d. level d \<ge> 10)\<rparr>,
      \<lparr>badgeId = ''level_25'', badgeName = ''Warrior'', badgeXp = 400, tier = ''gold'',
        category = ''special'', condition = (\<lambda>d. level d \<ge> 25)\<rparr>,
      \<lparr>badgeId = ''level_50'', badgeName = ''GamifyFit Master'', badgeXp = 1000, tier = ''diamond'',
        category = ''special'', condition = (\<lambda>d. level d \<ge> 50)\<rparr>,
      \<lparr>badgeId = ''steps_100k'', badgeName = ''Step Master'', badgeXp = 150, tier = ''silver'',
        category = ''fitness'', condition = (\<lambda>d. totalSteps (stats d) \<ge> 100000)\<rparr>,
      \<lparr>badgeId = ''steps_1m'', badgeName = ''Million Stepper'', badgeXp = 500, tier = ''platinum'',
        category = ''fitness'', condition = (\<lambda>d. totalSteps (stats d) \<ge> 1000000)\<rparr>,
      \<lparr>badgeId = ''calories_10k'', badgeName = ''Calorie Crusher'', badgeXp = 150, tier = ''silver'',
        category = ''fitness'', condition = (\<lambda>d. totalCalories (stats d) \<ge> 10000)\<rparr>,
      \<lparr>badgeId = ''calories_100k'', badgeName = ''Inferno'', badgeXp = 500, tier = ''platinum'',
        category = ''fitness'', condition = (\<lambda>d. totalCalories (stats d) \<ge> 100000)\<rparr>]"

text \<open>
  The body of the loop of \<open>checkBadges\<close> for a badge that is not yet earned and whose
  condition holds: the id is pushed, the badge XP added, the level recomputed and the
  award logged.
\<close>

definition awardBadge :: "badge \<Rightarrow> gamification \<Rightarrow> gamification" where
  "awardBadge b m =
     (let d = data m;
          x = xp d + badgeXp b
      in m\<lparr>data := d\<lparr>badges := badges d @ [badgeId b],
                      xp := x,
                      level := calculateLevel (levelThresholds m) x,
                      history := history d @ [BadgeEntry (badgeId b) (badgeXp b)]\<rparr>\<rparr>)"

fun checkBadges_loop ::
  "badge list \<Rightarrow> badge list \<Rightarrow> gamification \<Rightarrow> badge list \<times> gamification" where
  "checkBadges_loop [] newBadges m = (newBadges, m)"
| "checkBadges_loop (b # bs) newBadges m =
     (if badgeId b \<in> set (badges (data m)) then checkBadges_loop bs newBadges m
      else if condition b (data m) then checkBadges_loop bs (newBadges @ [b]) (awardBadge b m)
      else checkBadges_loop bs newBadges m)"

definition checkBadges :: "gamification \<Rightarrow> badge list \<times> gamification" where
  "checkBadges m =
     (let (newBadges, m') = checkBadges_loop getBadgeDefinitions [] m
      in (newBadges, if length newBadges > 0 then save m' else m'))"

subsection \<open>XP and streaks\<close>

record xp_result =
  xpAwarded :: int
  totalXP :: int
  resultLevel :: int
  leveledUp :: bool
  newTitle :: "string option"

text \<open>
  \<open>awardXP\<close>. \<open>onLevelUp\<close> only dispatches an event. The level in the result is read
  after \<open>checkBadges\<close>, \<open>leveledUp\<close> is computed before it.
\<close>

definition awardXP :: "int \<Rightarrow> string \<Rightarrow> gamification \<Rightarrow> xp_result \<times> gamification" where
  "awardXP amount source m =
     (let previousLevel = level (data m);
          x = xp (data m) + amount;
          m1 = m\<lparr>data := (data m)\<lparr>xp := x, level := calculateLevel (levelThresholds m) x\<rparr>\<rparr>;
          m2 = m1\<lparr>data := (data m1)\<lparr>history := history (data m1) @ [XpEntry amount source]\<rparr>\<rparr>;
          up = level (data m2) > previousLevel;
          m3 = snd (checkBadges m2);
          m4 = save m3
      in (\<lparr>xpAwarded = amount, totalXP = xp (data m4), resultLevel = level (data m4),
           leveledUp = up,
           newTitle = (if up then Some (getLevelTitle (level (data m4))) else None)\<rparr>, m4))"

text \<open>The first statements of \<open>awardXP\<close>: add the XP, recompute the level, log the award.\<close>

definition addXP :: "int \<Rightarrow> string \<Rightarrow> gamification \<Rightarrow> gamification" where
  "addXP amount source m =
     m\<lparr>data := (data m)\<lparr>xp := xp (data m) + amount,
                          level := calculateLevel (levelThresholds m) (xp (data m) + amount),
                          history := history (data m) @ [XpEntry amount source]\<rparr>\<rparr>"

definition calculateStreakBonus :: "int \<Rightarrow> int" where
  "calculateStreakBonus n =
     (if n = 7 then 100 else if n = 14 then 200 else if n = 30 then 500
      else if n = 100 then 1000 else if n mod 7 = 0 then 50 else 0)"

record streak_result =
  streakUpdated :: bool
  resultCurrent :: int
  resultLongest :: "int option"
  resultBonus :: "int option"

text \<open>
  The streak part of \<open>updateStreak\<close>, run when the last activity is not of today: continue
  or restart the streak, raise the longest streak, stamp the activity.
\<close>

definition advanceStreak :: "jsdate \<Rightarrow> streak_data \<Rightarrow> streak_data" where
  "advanceStreak now s =
     (let today = toDateString now;
          lastAct = map_option toDateString (lastActivity s);
          yesterday = daysBackString now 1;
          s1 = (if lastAct = Some yesterday then s\<lparr>current := current s + 1\<rparr>
                else if lastAct \<noteq> Some today then s\<lparr>current := 1\<rparr>
                else s);
          s2 = (if current s1 > longest s1 then s1\<lparr>longest := current s1\<rparr> else s1)
      in s2\<lparr>lastActivity := Some now\<rparr>)"

text \<open>The manager after the streak part of \<open>updateStreak\<close>.\<close>

definition streakStarted :: "jsdate \<Rightarrow> gamification \<Rightarrow> gamification" where
  "streakStarted now m = m\<lparr>data := (data m)\<lparr>streak := advanceStreak now (streak (data m))\<rparr>\<rparr>"

definition updateStreak :: "jsdate \<Rightarrow> gamification \<Rightarrow> streak_result \<times> gamification" where
  "updateStreak now m =
     (let today = toDateString now;
          lastAct = map_option toDateString (lastActivity (streak (data m)))
      in if lastAct = Some today
         then (\<lparr>streakUpdated = False, resultCurrent = current (streak (data m)),
                 resultLongest = None, resultBonus = None\<rparr>, m)
         else
           let m1 = m\<lparr>data := (data m)\<lparr>streak := advanceStreak now (streak (data m))\<rparr>\<rparr>;
               streakBonus = calculateStreakBonus (current (streak (data m1)));
               m2 = (if streakBonus > 0 then snd (awardXP streakBonus ''streak_bonus'' m1) else m1);
               m3 = snd (checkBadges m2);
               m4 = save m3
           in (\<lparr>streakUpdated = True, resultCurrent = current (streak (data m4)),
                 resultLongest = Some (longest (streak (data m4))),
                 resultBonus = Some streakBonus\<rparr>, m4))"

subsection \<open>Workouts, steps and challenges\<close>

record workout =
  duration :: "int option"
  calories :: "int option"
  workoutType :: "string option"

text \<open>\<open>v || 0\<close> and \<open>v >= n\<close> for a field that may be \<open>undefined\<close>.\<close>

definition orZero :: "int option \<Rightarrow> int" where
  "orZero v = (case v of None \<Rightarrow> 0 | Some n \<Rightarrow> n)"

definition atLeast_js :: "int option \<Rightarrow> int \<Rightarrow> bool" where
  "atLeast_js v n = (case v of None \<Rightarrow> False | Some k \<Rightarrow> k \<ge> n)"

definition orElse :: "string option \<Rightarrow> string \<Rightarrow> string" where
  "orElse v dflt = (case v of None \<Rightarrow> dflt | Some s \<Rightarrow> if s = [] then dflt else s)"

definition logWorkout ::
  "workout \<Rightarrow> jsdate \<Rightarrow> gamification \<Rightarrow> (xp_result \<times> streak_result) \<times> gamification" where
  "logWorkout w now m =
     (let st = stats (data m);
          st' = st\<lparr>totalWorkouts := totalWorkouts st + 1,
                   totalMinutes := totalMinutes st + orZero (duration w),
                   totalCalories := totalCalories st + orZero (calories w)\<rparr>;
          m1 = m\<lparr>data := (data m)\<lparr>stats := st'\<rparr>\<rparr>;
          xpEarned = 50
            + (if atLeast_js (duration w) 30 then 25 else 0)
            + (if atLeast_js (duration w) 60 then 25 else 0)
            + (if atLeast_js (calories w) 200 then 15 else 0)
            + (if atLeast_js (calories w) 400 then 25 else 0);
          (result, m2) = awardXP xpEarned (''workout_'' @ orElse (workoutType w) ''general'') m1;
          (streakResult, m3) = updateStreak now m2
      in ((result, streakResult), m3))"

text \<open>\<open>logSteps\<close> returns the result of \<open>awardXP\<close>, or \<open>{xpAwarded: 0}\<close> (\<open>None\<close>).\<close>

definition logSteps :: "int \<Rightarrow> gamification \<Rightarrow> xp_result option \<times> gamification" where
  "logSteps steps m =
     (let st = stats (data m);
          m1 = m\<lparr>data := (data m)\<lparr>stats := st\<lparr>totalSteps := totalSteps st + steps\<rparr>\<rparr>\<rparr>;
          xpEarned = steps div 100
      in if xpEarned > 0
         then (let (r, m2) = awardXP xpEarned ''steps'' m1 in (Some r, m2))
         else (None, save m1))"

record challenge =
  chId :: int
  chXp :: int
  chType :: string

definition completeChallenge :: "challenge \<Rightarrow> gamification \<Rightarrow> xp_result \<times> gamification" where
  "completeChallenge c m =
     (let ch = challenges (data m);
          ch' = ch\<lparr>active := filter (\<lambda>a. challengeId a \<noteq> chId c) (active ch),
                   completed := completed ch + 1\<rparr>;
          m1 = m\<lparr>data := (data m)\<lparr>challenges := ch'\<rparr>\<rparr>
      in awardXP (chXp c) (''challenge_'' @ chType c) m1)"

definition joinChallenge :: "challenge \<Rightarrow> jsdate \<Rightarrow> gamification \<Rightarrow> bool \<times> gamification" where
  "joinChallenge c now m =
     (let ch = challenges (data m)
      in if find (\<lambda>a. challengeId a = chId c) (active ch) = None
         then (True,
               save (m\<lparr>data := (data m)\<lparr>challenges :=
                 ch\<lparr>active := active ch @ [\<lparr>challengeId = chId c, joinedAt = now, progress = 0\<rparr>]\<rparr>\<rparr>\<rparr>))
         else (False, m))"

definition reset :: "gamification \<Rightarrow> gamification" where
  "reset m = save (m\<lparr>data := getDefaultData\<rparr>)"

text \<open>The stored level agrees with the level computed from the stored XP.\<close>

definition levelConsistent :: "gamification \<Rightarrow> bool" where
  "levelConsistent m = (level (data m) = calculateLevel (levelThresholds m) (xp (data m)))"

text \<open>
  The earned list of \<open>m'\<close> extends that of \<open>m\<close>: no entry is removed or moved, and no
  duplicate is introduced.
\<close>

definition badgesExtended :: "gamification \<Rightarrow> gamification \<Rightarrow> bool" where
  "badgesExtended m m' =
     (prefix (badges (data m)) (badges (data m'))
      \<and> (distinct (badges (data m)) \<longrightarrow> distinct (badges (data m'))))"

text \<open>
  The operations in parts, for the proofs: the statistics update of \<open>logWorkout\<close> and its
  XP, the step count of \<open>logSteps\<close>, the challenge bookkeeping of \<open>completeChallenge\<close>.
\<close>

definition workoutCounted :: "workout \<Rightarrow> gamification \<Rightarrow> gamification" where
  "workoutCounted w m =
     m\<lparr>data := (data m)\<lparr>stats := (stats (data m))
        \<lparr>totalWorkouts := totalWorkouts (stats (data m)) + 1,
         totalMinutes := totalMinutes (stats (data m)) + orZero (duration w),
         totalCalories := totalCalories (stats (data m)) + orZero (calories w)\<rparr>\<rparr>\<rparr>"

definition workoutXP :: "workout \<Rightarrow> int" where
  "workoutXP w = 50
            + (if atLeast_js (duration w) 30 then 25 else 0)
            + (if atLeast_js (duration w) 60 then 25 else 0)
            + (if atLeast_js (calories w) 200 then 15 else 0)
            + (if atLeast_js (calories w) 400 then 25 else 0)"

definition stepsCounted :: "int \<Rightarrow> gamification \<Rightarrow> gamification" where
  "stepsCounted steps m =
     m\<lparr>data := (data m)\<lparr>stats := (stats (data m))\<lparr>totalSteps := totalSteps (stats (data m)) + steps\<rparr>\<rparr>\<rparr>"

definition challengeClosed :: "challenge \<Rightarrow> gamification \<Rightarrow> gamification" where
  "challengeClosed c m =
     m\<lparr>data := (data m)\<lparr>challenges := (challenges (data m))
        \<lparr>active := filter (\<lambda>a. challengeId a \<noteq> chId c) (active (challenges (data m))),
         completed := completed (challenges (data m)) + 1\<rparr>\<rparr>\<rparr>"

text \<open>Sample states: a user with 120 XP at level 2 and a three-day streak.\<close>

definition sampleNow :: jsdate where
  "sampleNow = \<lparr>epochMs = 20000 * msPerDay + 3600000, localDay = 20000\<rparr>"

definition sampleEarlier :: "int \<Rightarrow> jsdate" where
  "sampleEarlier n = \<lparr>epochMs = epochMs sampleNow - n * msPerDay, localDay = localDay sampleNow - n\<rparr>"

definition sampleManager :: "jsdate option \<Rightarrow> gamification" where
  "sampleManager lastAct =
     \<lparr>data = getDefaultData\<lparr>xp := 120, level := 2,
               streak := \<lparr>current = 3, longest = 5, lastActivity = lastAct\<rparr>,
               badges := [''first_workout''],
               stats := (stats getDefaultData)\<lparr>totalWorkouts := 3\<rparr>\<rparr>,
      levelThresholds = [0, 100, 215, 347],
      localStorage = Map.empty\<rparr>"

section \<open>PlanGenerator (js/planGenerator.js)\<close>

record exercise =
  exName :: string
  muscle :: string
  difficulty :: int
  equipment :: string
  tips :: string

definition exerciseDatabase :: "(string \<times> exercise list) list" where
  "exerciseDatabase =
     [(''chest'',
       [\<lparr>exName = ''Push-Ups'', muscle = ''Chest'', difficulty = 1, equipment = ''none'',
          tips = ''Keep your body straight. Lower until chest nearly touches floor.''\<rparr>,
        \<lparr>exName = ''Incline Push-Ups'', muscle = ''Upper Chest'', difficulty = 1, equipment = ''none'',
          tips = ''Place hands on elevated surface. Great for beginners.''\<rparr>,
        \<lparr>exName = ''Diamond Push-Ups'', muscle = ''Chest, Triceps'', difficulty = 2, equipment = ''none'',
          tips = ''Form a diamond with your hands. Keep elbows close.''\<rparr>,
        \<lparr>exName = ''Bench Press'', muscle = ''Chest'', difficulty = 2, equipment = ''barbell'',
          tips = ''Keep feet flat, slight arch in lower back.''\<rparr>,
        \<lparr>exName = ''Dumbbell Press'', muscle = ''Chest'', difficulty = 2, equipment = ''dumbbells'',
          tips = ''Press straight up, control the negative.''\<rparr>,
        \<lparr>exName = ''Incline Dumbbell Press'', muscle = ''Upper Chest'', difficulty = 2, equipment = ''dumbbells'',
          tips = ''Set bench to 30-45 degrees.''\<rparr>,
        \<lparr>exName = ''Dumbbell Flyes'', muscle = ''Chest'', difficulty = 2, equipment = ''dumbbells'',
          tips = ''Keep slight bend in elbows throughout.''\<rparr>,
        \<lparr>exName = ''Cable Crossover'', muscle = ''Chest'', difficulty = 3, equipment = ''cable'',
          tips = ''Squeeze at the center for peak contraction.''\<rparr>]),
      (''back'',
       [\<lparr>exName = ''Pull-Ups'', muscle = ''Lats, Biceps'', difficulty = 3, equipment = ''pullup_bar'',
          tips = ''Pull chest to bar, squeeze shoulder blades.''\<rparr>,
        \<lparr>exName = ''Chin-Ups'', muscle = ''Lats, Biceps'', difficulty = 2, equipment = ''pullup_bar'',
          tips = ''Underhand grip, focus on biceps engagement.''\<rparr>,
        \<lparr>exName = ''Inverted Rows'', muscle = ''Back'', difficulty = 1, equipment = ''none'',
          tips = ''Keep body straight, pull chest to bar.''\<rparr>,
        \<lparr>exName = ''Bent Over Rows'', muscle = ''Back'', difficulty = 2, equipment = ''barbell'',
          tips = ''Hinge at hips, pull to lower chest.''\<rparr>,
        \<lparr>exName = ''Dumbbell Rows'', muscle = ''Back'', difficulty = 2, equipment = ''dumbbells'',
          tips = ''Keep back flat, pull elbow past torso.''\<rparr>,
        \<lparr>exName = ''Lat Pulldown'', muscle = ''Lats'', difficulty = 2, equipment = ''cable'',
          tips = ''Pull to upper chest, control the return.''\<rparr>,
        \<lparr>exName = ''Deadlift'', muscle = ''Back, Hamstrings'', difficulty = 3, equipment = ''barbell'',
          tips = ''Keep back flat, push through heels.''\<rparr>,
        \<lparr>exName = ''Face Pulls'', muscle = ''Rear Delts'', difficulty = 1, equipment = ''cable'',
          tips = ''Pull rope to face, externally rotate.''\<rparr>]),
      (''shoulders'',
       [\<lparr>exName = ''Pike Push-Ups'', muscle = ''Shoulders'', difficulty = 2, equipment = ''none'',
          tips = ''Form inverted V, lower head toward floor.''\<rparr>,
        \<lparr>exName = ''Overhead Press'', muscle = ''Shoulders'', difficulty = 2, equipment = ''barbell'',
          tips = ''Brace core, press straight up.''\<rparr>,
        \<lparr>exName = ''Dumbbell Shoulder Press'', muscle = ''Shoulders'', difficulty = 2, equipment = ''dumbbells'',
          tips = ''Press up and slightly in.''\<rparr>,
        \<lparr>exName = ''Lateral Raises'', muscle = ''Side Delts'', difficulty = 1, equipment = ''dumbbells'',
          tips = ''Lead with elbows, slight bend in arms.''\<rparr>,
        \<lparr>exName = ''Front Raises'', muscle = ''Front Delts'', difficulty = 1, equipment = ''dumbbells'',
          tips = ''Alternate arms, control the movement.''\<rparr>,
        \<lparr>exName = ''Arnold Press'', muscle = ''Shoulders'', difficulty = 2, equipment = ''dumbbells'',
          tips = ''Rotate palms as you press.''\<rparr>,
        \<lparr>exName = ''Reverse Flyes'', muscle = ''Rear Delts'', difficulty = 1, equipment = ''dumbbells'',
          tips = ''Bend over, squeeze shoulder blades.''\<rparr>]),
      (''arms'',
       [\<lparr>exName = ''Bicep Curls'', muscle = ''Biceps'', difficulty = 1, equipment = ''dumbbells'',
          tips = ''Keep elbows pinned, control negative.''\<rparr>,
        \<lparr>exName = ''Hammer Curls'', muscle = ''Biceps, Forearms'', difficulty = 1, equipment = ''dumbbells'',
          tips = ''Neutral grip, curl to shoulder.''\<rparr>,
        \<lparr>exName = ''Tricep Dips'', muscle = ''Triceps'', difficulty = 2, equipment = ''none'',
          tips = ''Keep elbows close, lower 90 degrees.''\<rparr>,
        \<lparr>exName = ''Tricep Pushdowns'', muscle = ''Triceps'', difficulty = 1, equipment = ''cable'',
          tips = ''Pin elbows, fully extend.''\<rparr>,
        \<lparr>exName = ''Skull Crushers'', muscle = ''Triceps'', difficulty = 2, equipment = ''barbell'',
          tips = ''Lower to forehead, keep elbows in.''\<rparr>,
        \<lparr>exName = ''Concentration Curls'', muscle = ''Biceps'', difficulty = 1, equipment = ''dumbbells'',
          tips = ''Isolate bicep, slow controlled reps.''\<rparr>,
        \<lparr>exName = ''Close Grip Bench Press'', muscle = ''Triceps'', difficulty = 2, equipment = ''barbell'',
          tips = ''Hands shoulder-width, elbows tucked.''\<rparr>]),
      (''legs'',
       [\<lparr>exName = ''Bodyweight Squats'', muscle = ''Quads, Glutes'', difficulty = 1, equipment = ''none'',
          tips = ''Chest up, knees track over toes.''\<rparr>,
        \<lparr>exName = ''Lunges'', muscle = ''Quads, Glutes'', difficulty = 1, equipment = ''none'',
          tips = ''Step forward, lower back knee.''\<rparr>,
        \<lparr>exName = ''Barbell Squats'', muscle = ''Quads, Glutes'', difficulty = 2, equipment = ''barbell'',
          tips = ''Break at hips first, drive through heels.''\<rparr>,
        \<lparr>exName = ''Front Squats'', muscle = ''Quads'', difficulty = 3, equipment = ''barbell'',
          tips = ''Keep elbows high, torso upright.''\<rparr>,
        \<lparr>exName = ''Romanian Deadlifts'', muscle = ''Hamstrings, Glutes'', difficulty = 2, equipment = ''barbell'',
          tips = ''Hinge at hips, slight knee bend.''\<rparr>,
        \<lparr>exName = ''Leg Press'', muscle = ''Quads'', difficulty = 2, equipment = ''machine'',
          tips = ''Feet shoulder-width, dont lock knees.''\<rparr>,
        \<lparr>exName = ''Leg Curls'', muscle = ''Hamstrings'', difficulty = 1, equipment = ''machine'',
          tips = ''Control the negative, squeeze at top.''\<rparr>,
        \<lparr>exName = ''Leg Extensions'', muscle = ''Quads'', difficulty = 1, equipment = ''machine'',
          tips = ''Full extension, pause at top.''\<rparr>,
        \<lparr>exName = ''Calf Raises'', muscle = ''Calves'', difficulty = 1, equipment = ''none'',
          tips = ''Full range of motion, squeeze at top.''\<rparr>,
        \<lparr>exName = ''Bulgarian Split Squats'', muscle = ''Quads, Glutes'', difficulty = 2, equipment = ''none'',
          tips = ''Rear foot elevated, stay balanced.''\<rparr>,
        \<lparr>exName = ''Hip Thrusts'', muscle = ''Glutes'', difficulty = 2, equipment = ''barbell'',
          tips = ''Drive through heels, squeeze glutes.''\<rparr>]),
      (''core'',
       [\<lparr>exName = ''Plank'', muscle = ''Core'', difficulty = 1, equipment = ''none'',
          tips = ''Straight line from head to heels.''\<rparr>,
        \<lparr>exName = ''Crunches'', muscle = ''Abs'', difficulty = 1, equipment = ''none'',
          tips = ''Curl shoulders off floor, dont pull neck.''\<rparr>,
        \<lparr>exName = ''Leg Raises'', muscle = ''Lower Abs'', difficulty = 2, equipment = ''none'',
          tips = ''Keep lower back pressed to floor.''\<rparr>,
        \<lparr>exName = ''Russian Twists'', muscle = ''Obliques'', difficulty = 2, equipment = ''none'',
          tips = ''Rotate torso, keep feet elevated.''\<rparr>,
        \<lparr>exName = ''Mountain Climbers'', muscle = ''Core'', difficulty = 2, equipment = ''none'',
          tips = ''Drive knees to chest, maintain plank.''\<rparr>,
        \<lparr>exName = ''Dead Bug'', muscle = ''Core'', difficulty = 1, equipment = ''none'',
          tips = ''Keep lower back pressed down.''\<rparr>,
        \<lparr>exName = ''Bicycle Crunches'', muscle = ''Abs, Obliques'', difficulty = 2, equipment = ''none'',
          tips = ''Opposite elbow to knee, control tempo.''\<rparr>,
        \<lparr>exName = ''Hanging Leg Raises'', muscle = ''Lower Abs'', difficulty = 3, equipment = ''pullup_bar'',
          tips = ''Control the swing, lift with abs.''\<rparr>]),
      (''cardio'',
       [\<lparr>exName = ''Jumping Jacks'', muscle = ''Full Body'', difficulty = 1, equipment = ''none'',
          tips = ''Stay light on feet, coordinate arms.''\<rparr>,
        \<lparr>exName = ''High Knees'', muscle = ''Cardio'', difficulty = 1, equipment = ''none'',
          tips = ''Drive knees up, pump arms.''\<rparr>,
        \<lparr>exName = ''Burpees'', muscle = ''Full Body'', difficulty = 3, equipment = ''none'',
          tips = ''Explosive jump, soft landing.''\<rparr>,
        \<lparr>exName = ''Box Jumps'', muscle = ''Legs'', difficulty = 2, equipment = ''box'',
          tips = ''Land softly, step down.''\<rparr>,
        \<lparr>exName = ''Jump Rope'', muscle = ''Cardio'', difficulty = 2, equipment = ''rope'',
          tips = ''Stay on balls of feet, small jumps.''\<rparr>,
        \<lparr>exName = ''Running'', muscle = ''Cardio'', difficulty = 2, equipment = ''none'',
          tips = ''Maintain steady pace, controlled breathing.''\<rparr>,
        \<lparr>exName = ''Cycling'', muscle = ''Legs, Cardio'', difficulty = 2, equipment = ''bike'',
          tips = ''Keep cadence steady, adjust resistance.''\<rparr>])]"

text \<open>
  The profile passed to \<open>generatePlan\<close>; \<open>None\<close> is a field that is absent, for which the
  destructuring takes the default. \<open>daysPerWeek\<close> and \<open>duration\<close> are integers; for an
  integer \<open>d\<close> the double-precision \<open>Math.floor((d / 45) * 2)\<close> is \<open>\<lfloor>2d / 45\<rfloor>\<close>.
\<close>

record userProfile =
  fitnessLevel :: "string option"
  goal :: "string option"
  daysPerWeek :: "int option"
  profileEquipment :: "string list option"
  profileDuration :: "int option"

text \<open>
  A property read on an object literal finds the object's own keys first and then the
  members every object inherits from \<open>Object.prototype\<close>. The inherited members are
  functions (\<open>__proto__\<close> is the prototype object): truthy values that are no arrays and
  have none of the fields and methods the program uses on what it reads.
\<close>

definition objectPrototypeKeys :: "string list" where
  "objectPrototypeKeys =
     [''constructor'', ''hasOwnProperty'', ''isPrototypeOf'', ''propertyIsEnumerable'',
      ''toLocaleString'', ''toString'', ''valueOf'', ''__defineGetter__'', ''__defineSetter__'',
      ''__lookupGetter__'', ''__lookupSetter__'', ''__proto__'']"

datatype 'a property = Own 'a | Inherited | Absent

definition getProperty :: "(string \<times> 'a) list \<Rightarrow> string \<Rightarrow> 'a property" where
  "getProperty obj key =
     (case map_of obj key of
        Some v \<Rightarrow> Own v
      | None \<Rightarrow> if key \<in> set objectPrototypeKeys then Inherited else Absent)"

text \<open>
  \<open>obj[key] || dflt\<close>, for tables whose own values are truthy (arrays, non-empty strings):
  the own value, the inherited member, or the default when the key is absent.
\<close>

datatype 'a looked_up = Value 'a | InheritedMember

definition orDefault :: "'a property \<Rightarrow> 'a \<Rightarrow> 'a looked_up" where
  "orDefault p dflt = (case p of Own v \<Rightarrow> Value v | Inherited \<Rightarrow> InheritedMember | Absent \<Rightarrow> Value dflt)"

datatype js_error = TypeError

text \<open>A \<open>forEach\<close> whose callback can throw: the first exception ends the loop.\<close>

fun forEach_js :: "(js_error + 'a) list \<Rightarrow> js_error + 'a list" where
  "forEach_js [] = Inr []"
| "forEach_js (Inl e # rs) = Inl e"
| "forEach_js (Inr x # rs) = (case forEach_js rs of Inl e \<Rightarrow> Inl e | Inr xs \<Rightarrow> Inr (x # xs))"

definition splits :: "(int \<times> (string \<times> string list) list) list" where
  "splits =
     [(3, [(''general'', [''full'', ''rest'', ''full'', ''rest'', ''full'', ''rest'', ''rest'']),
           (''build_muscle'', [''push'', ''rest'', ''pull'', ''rest'', ''legs'', ''rest'', ''rest'']),
           (''lose_weight'', [''hiit'', ''rest'', ''full'', ''rest'', ''cardio'', ''rest'', ''rest''])]),
      (4, [(''general'', [''upper'', ''lower'', ''rest'', ''push'', ''pull'', ''rest'', ''rest'']),
           (''build_muscle'', [''chest'', ''back'', ''rest'', ''shoulders'', ''legs'', ''rest'', ''rest'']),
           (''lose_weight'', [''hiit'', ''lower'', ''rest'', ''upper'', ''cardio'', ''rest'', ''rest''])]),
      (5, [(''general'', [''push'', ''pull'', ''legs'', ''rest'', ''upper'', ''lower'', ''rest'']),
           (''build_muscle'', [''chest'', ''back'', ''legs'', ''rest'', ''shoulders'', ''arms'', ''rest'']),
           (''lose_weight'', [''hiit'', ''lower'', ''cardio'', ''rest'', ''upper'', ''hiit'', ''rest''])]),
      (6, [(''general'', [''push'', ''pull'', ''legs'', ''push'', ''pull'', ''legs'', ''rest'']),
           (''build_muscle'', [''chest'', ''back'', ''legs'', ''shoulders'', ''arms'', ''full'', ''rest'']),
           (''lose_weight'', [''hiit'', ''upper'', ''cardio'', ''lower'', ''hiit'', ''cardio'', ''rest''])])]"

text \<open>\<open>splits[4].general\<close>, the 4-day general split.\<close>

definition fourDayGeneral :: "string list" where
  "fourDayGeneral = [''upper'', ''lower'', ''rest'', ''push'', ''pull'', ''rest'', ''rest'']"

text \<open>
  \<open>splits[days]?.[goal] || splits[4].general\<close>: \<open>days\<close> is a number and finds own keys only;
  \<open>goal\<close> finds the split of the table, an inherited member when it names one, or nothing,
  and then the 4-day general split is taken.
\<close>

definition getWorkoutSplit :: "int \<Rightarrow> string \<Rightarrow> string list looked_up" where
  "getWorkoutSplit n g =
     (case map_of splits n of
        None \<Rightarrow> Value fourDayGeneral
      | Some byGoal \<Rightarrow> orDefault (getProperty byGoal g) fourDayGeneral)"

definition wtypeNames :: "(string \<times> string) list" where
  "wtypeNames =
     [(''full'', ''Full Body''), (''upper'', ''Upper Body''), (''lower'', ''Lower Body''),
      (''push'', ''Push Day''), (''pull'', ''Pull Day''), (''legs'', ''Leg Day''),
      (''chest'', ''Chest Focus''), (''back'', ''Back Focus''), (''shoulders'', ''Shoulder Day''),
      (''arms'', ''Arm Day''), (''hiit'', ''HIIT Training''), (''cardio'', ''Cardio Session'')]"

text \<open>\<open>names[type] || 'Workout'\<close>\<close>

definition getWorkoutTypeName :: "string \<Rightarrow> string looked_up" where
  "getWorkoutTypeName t = orDefault (getProperty wtypeNames t) ''Workout''"

definition groupMap :: "(string \<times> string list) list" where
  "groupMap =
     [(''full'', [''chest'', ''back'', ''legs'', ''core'']),
      (''upper'', [''chest'', ''back'', ''shoulders'', ''arms'']),
      (''lower'', [''legs'', ''core'']),
      (''push'', [''chest'', ''shoulders'', ''arms'']),
      (''pull'', [''back'', ''arms'']),
      (''legs'', [''legs'', ''core'']),
      (''chest'', [''chest'', ''shoulders'']),
      (''back'', [''back'']),
      (''shoulders'', [''shoulders'', ''arms'']),
      (''arms'', [''arms'']),
      (''hiit'', [''cardio'', ''core'']),
      (''cardio'', [''cardio''])]"

text \<open>\<open>groupMap[workoutType] || ['full']\<close>\<close>

definition getMuscleGroups :: "string \<Rightarrow> string list looked_up" where
  "getMuscleGroups wtype = orDefault (getProperty groupMap wtype) [''full'']"

subsection \<open>Exercises with sets\<close>

record exercise_set =
  reps :: int
  weight :: int
  unit :: string

record planned_exercise =
  plannedName :: string
  plannedMuscle :: string
  plannedSets :: "exercise_set list"
  plannedRest :: "int option"
  plannedTips :: string
  plannedCompleted :: bool

record sets_config =
  configSets :: nat
  configReps :: "int list"
  configRest :: int

definition setsConfig :: "(string \<times> sets_config) list" where
  "setsConfig =
     [(''beginner'', \<lparr>configSets = 3, configReps = [12, 10, 10], configRest = 60\<rparr>),
      (''intermediate'', \<lparr>configSets = 4, configReps = [12, 10, 8, 8], configRest = 75\<rparr>),
      (''advanced'', \<lparr>configSets = 4, configReps = [10, 8, 6, 6], configRest = 90\<rparr>)]"

text \<open>
  \<open>config.reps[i] || config.reps[config.reps.length - 1]\<close>, for a non-empty \<open>reps\<close>.
\<close>

definition repsAt :: "int list \<Rightarrow> nat \<Rightarrow> int" where
  "repsAt rs i = (if i < length rs \<and> rs ! i \<noteq> 0 then rs ! i else last rs)"

text \<open>
  \<open>createExerciseWithSets\<close>: \<open>setsConfig[fitnessLevel] || setsConfig.intermediate\<close>. With
  an inherited member for \<open>config\<close>, \<open>config.sets\<close> and \<open>config.rest\<close> are \<open>undefined\<close>:
  the loop does not run and \<open>rest\<close> is \<open>undefined\<close> (\<open>None\<close>).
\<close>

definition createExerciseWithSets :: "exercise \<Rightarrow> string \<Rightarrow> planned_exercise" where
  "createExerciseWithSets ex lvl =
     (let mk = (\<lambda>config.
            \<lparr>plannedName = exName ex, plannedMuscle = muscle ex,
             plannedSets =
               map (\<lambda>i. \<lparr>reps = repsAt (configReps config) i, weight = 0,
                          unit = (if equipment ex = ''none'' then ''bodyweight'' else ''kg'')\<rparr>)
                 [0..<configSets config],
             plannedRest = Some (configRest config),
             plannedTips = tips ex, plannedCompleted = False\<rparr>)
      in case getProperty setsConfig lvl of
           Own config \<Rightarrow> mk config
         | Absent \<Rightarrow> mk \<lparr>configSets = 4, configReps = [12, 10, 8, 8], configRest = 75\<rparr>
         | Inherited \<Rightarrow>
             \<lparr>plannedName = exName ex, plannedMuscle = muscle ex, plannedSets = [],
              plannedRest = None, plannedTips = tips ex, plannedCompleted = False\<rparr>)"

subsection \<open>Selecting exercises\<close>

text \<open>\<open>xs.slice(0, e)\<close>: a negative \<open>e\<close> counts from the end of the array.\<close>

definition slice0 :: "'a list \<Rightarrow> int \<Rightarrow> 'a list" where
  "slice0 xs e = (if e < 0 then take (nat (int (length xs) + e)) xs else take (nat e) xs)"

definition maxDifficulty :: "string \<Rightarrow> int" where
  "maxDifficulty lvl = (if lvl = ''beginner'' then 1 else if lvl = ''intermediate'' then 2 else 3)"

definition suitable :: "string \<Rightarrow> string list \<Rightarrow> exercise \<Rightarrow> bool" where
  "suitable lvl equip ex =
     (difficulty ex \<le> maxDifficulty lvl \<and> (''none'' \<in> set equip \<or> equipment ex \<in> set equip))"

text \<open>
  \<open>this.exerciseDatabase[group]?.filter(\<dots>) || []\<close>: the optional chaining covers a missing
  group only; on an inherited member \<open>filter\<close> is \<open>undefined\<close> and the call throws.
\<close>

definition availableExercises :: "string \<Rightarrow> string \<Rightarrow> string list \<Rightarrow> js_error + exercise list" where
  "availableExercises grp lvl equip =
     (case getProperty exerciseDatabase grp of
        Own exs \<Rightarrow> Inr (filter (suitable lvl equip) exs)
      | Absent \<Rightarrow> Inr []
      | Inherited \<Rightarrow> Inl TypeError)"

text \<open>
  The callback of \<open>muscleGroups.forEach\<close>: the exercises one group contributes. The shuffle
  \<open>[...available].sort(() => Math.random() - 0.5)\<close> is the parameter \<open>shuffle\<close>, which
  receives the position of the muscle group in the list so that every call may order its
  pool differently.
\<close>

definition groupExercises ::
  "(nat \<Rightarrow> exercise list \<Rightarrow> exercise list) \<Rightarrow> string \<Rightarrow> string list \<Rightarrow> int \<Rightarrow> nat \<times> string
   \<Rightarrow> js_error + planned_exercise list" where
  "groupExercises shuffle lvl equip exercisesPerGroup = (\<lambda>(i, grp).
     case availableExercises grp lvl equip of
       Inl e \<Rightarrow> Inl e
     | Inr available \<Rightarrow>
         Inr (map (\<lambda>ex. createExerciseWithSets ex lvl)
                (slice0 (shuffle i available) exercisesPerGroup)))"

text \<open>
  \<open>selectExercises\<close>. With an inherited member for \<open>muscleGroups\<close>, \<open>muscleGroups.forEach\<close>
  is no function and the call throws.
\<close>

definition selectExercises ::
  "(nat \<Rightarrow> exercise list \<Rightarrow> exercise list) \<Rightarrow> string \<Rightarrow> string \<Rightarrow> string list \<Rightarrow> int
   \<Rightarrow> js_error + planned_exercise list" where
  "selectExercises shuffle wtype lvl equip dur =
     (case getMuscleGroups wtype of
        InheritedMember \<Rightarrow> Inl TypeError
      | Value muscleGroups \<Rightarrow>
          (let exercisesPerGroup = (dur * 2) div 45;
               totalExercises = min (int (length muscleGroups) * exercisesPerGroup) 8
           in case forEach_js (map (groupExercises shuffle lvl equip exercisesPerGroup)
                                 (enumerate 0 muscleGroups)) of
                Inl e \<Rightarrow> Inl e
              | Inr selected \<Rightarrow> Inr (slice0 (concat selected) totalExercises)))"

definition calculateWorkoutXP :: "planned_exercise list \<Rightarrow> int" where
  "calculateWorkoutXP exs = 50 + int (length exs) * 5"

subsection \<open>The weekly plan\<close>

record plan_day =
  dayName :: "string option"
  dayDate :: int
  dayType :: "string looked_up"
  isRest :: bool
  totalXp :: int
  dayCompleted :: bool
  exercises :: "planned_exercise list option"

record plan =
  weekNumber :: int
  planGoal :: string
  planFitnessLevel :: string
  planDays :: "plan_day list"

definition dayNames :: "string list" where
  "dayNames = [''Mon'', ''Tue'', ''Wed'', ''Thu'', ''Fri'', ''Sat'', ''Sun'']"

text \<open>\<open>dayNames[index]\<close>, \<open>undefined\<close> (\<open>None\<close>) beyond the seventh day.\<close>

definition dayNameAt :: "nat \<Rightarrow> string option" where
  "dayNameAt i = (if i < length dayNames then Some (dayNames ! i) else None)"

text \<open>
  The callback of \<open>split.forEach\<close>: one day of the plan. The shuffle receives the day's
  index and the group's position.
\<close>

definition planDay ::
  "(nat \<Rightarrow> nat \<Rightarrow> exercise list \<Rightarrow> exercise list) \<Rightarrow> string \<Rightarrow> string list \<Rightarrow> int
   \<Rightarrow> nat \<times> string \<Rightarrow> js_error + plan_day" where
  "planDay shuffle lvl equip dur = (\<lambda>(index, wtype).
     if wtype = ''rest''
     then Inr \<lparr>dayName = dayNameAt index, dayDate = int index + 1, dayType = Value ''Rest Day'',
               isRest = True, totalXp = 20, dayCompleted = False, exercises = None\<rparr>
     else
       (case selectExercises (shuffle index) wtype lvl equip dur of
          Inl e \<Rightarrow> Inl e
        | Inr exs \<Rightarrow>
            Inr \<lparr>dayName = dayNameAt index, dayDate = int index + 1,
                  dayType = getWorkoutTypeName wtype, isRest = False,
                  totalXp = calculateWorkoutXP exs, dayCompleted = False, exercises = Some exs\<rparr>))"

text \<open>The destructuring of the profile with its defaults.\<close>

definition profileLevel :: "userProfile \<Rightarrow> string" where
  "profileLevel p = (case fitnessLevel p of None \<Rightarrow> ''beginner'' | Some l \<Rightarrow> l)"

definition profileGoal :: "userProfile \<Rightarrow> string" where
  "profileGoal p = (case goal p of None \<Rightarrow> ''general'' | Some g \<Rightarrow> g)"

definition profileDays :: "userProfile \<Rightarrow> int" where
  "profileDays p = (case daysPerWeek p of None \<Rightarrow> 4 | Some k \<Rightarrow> k)"

definition profileEquip :: "userProfile \<Rightarrow> string list" where
  "profileEquip p = (case profileEquipment p of None \<Rightarrow> [''none''] | Some e \<Rightarrow> e)"

definition profileMinutes :: "userProfile \<Rightarrow> int" where
  "profileMinutes p = (case profileDuration p of None \<Rightarrow> 45 | Some d \<Rightarrow> d)"

text \<open>
  \<open>generatePlan\<close>: \<open>split.forEach\<close> throws a \<open>TypeError\<close> when \<open>split\<close> is an inherited
  member and no array.
\<close>

definition generatePlan ::
  "(nat \<Rightarrow> nat \<Rightarrow> exercise list \<Rightarrow> exercise list) \<Rightarrow> userProfile \<Rightarrow> js_error + plan" where
  "generatePlan shuffle userProfile =
     (case getWorkoutSplit (profileDays userProfile) (profileGoal userProfile) of
        InheritedMember \<Rightarrow> Inl TypeError
      | Value split \<Rightarrow>
          (case forEach_js (map (planDay shuffle (profileLevel userProfile)
                                   (profileEquip userProfile) (profileMinutes userProfile))
                              (enumerate 0 split)) of
             Inl e \<Rightarrow> Inl e
           | Inr weeklyPlan \<Rightarrow>
               Inr \<lparr>weekNumber = 1, planGoal = profileGoal userProfile,
                    planFitnessLevel = profileLevel userProfile, planDays = weeklyPlan\<rparr>))"

text \<open>All exercises of the database.\<close>

definition allExercises :: "exercise list" where
  "allExercises = concat (map snd exerciseDatabase)"

text \<open>
  The shape claimed for a plan: seven days named Mon to Sun in order, each a rest day worth
  20 XP or a workout day with at most 8 exercises, each made from a database exercise
  whose difficulty is within the maximum of the fitness level.
\<close>

definition dayShape :: "string \<Rightarrow> plan_day \<Rightarrow> bool" where
  "dayShape lvl d =
     (if isRest d then totalXp d = 20
      else (case exercises d of
              None \<Rightarrow> False
            | Some exs \<Rightarrow>
                length exs \<le> 8
                \<and> list_all (\<lambda>p. list_ex (\<lambda>ex. p = createExerciseWithSets ex lvl
                                           \<and> difficulty ex \<le> maxDifficulty lvl) allExercises) exs))"

definition planShape :: "js_error + plan \<Rightarrow> bool" where
  "planShape r =
     (case r of
        Inl e \<Rightarrow> False
      | Inr p \<Rightarrow> map dayName (planDays p) = map Some dayNames
                \<and> list_all (dayShape (planFitnessLevel p)) (planDays p))"

text \<open>Sample profiles and a shuffle that leaves every pool in its order.\<close>

definition keepOrder :: "nat \<Rightarrow> nat \<Rightarrow> exercise list \<Rightarrow> exercise list" where
  "keepOrder d i xs = xs"




definition shortNegativeProfile :: "int \<Rightarrow> userProfile" where
  "shortNegativeProfile d =
     \<lparr>fitnessLevel = Some ''advanced'', goal = Some ''general'', daysPerWeek = Some 3,
      profileEquipment = None, profileDuration = Some d\<rparr>"


section \<open>Service worker (sw.js)\<close>

subsection \<open>Requests, responses and the cache storage\<close>

text \<open>
  A request with its URL as parsed by \<open>new URL(request.url)\<close>, and a response;
  \<open>response.ok\<close> is true for a status from 200 to 299.
\<close>

record url =
  href :: string
  protocol :: string
  pathname :: string

record request =
  requestMethod :: string
  requestUrl :: url
  mode :: string

record response =
  status :: int
  headers :: "(string \<times> string) list"
  body :: string

definition ok :: "response \<Rightarrow> bool" where
  "ok r = (200 \<le> status r \<and> status r \<le> 299)"

text \<open>\<open>fetch\<close> resolves with a response or rejects (the network fails).\<close>

datatype fetch_outcome = Resolved response | Rejected

definition startsWith :: "string \<Rightarrow> string \<Rightarrow> bool" where
  "startsWith s p = prefix p s"

definition endsWith :: "string \<Rightarrow> string \<Rightarrow> bool" where
  "endsWith s e = suffix e s"

definition includes_js :: "string \<Rightarrow> string \<Rightarrow> bool" where
  "includes_js s e = sublist e s"

definition CACHE_VERSION :: string where
  "CACHE_VERSION = ''v1.0.0''"

definition CACHE_NAME :: string where
  "CACHE_NAME = ''GamifyFit-cache-'' @ CACHE_VERSION"

definition DYNAMIC_CACHE :: string where
  "DYNAMIC_CACHE = ''GamifyFit-dynamic-'' @ CACHE_VERSION"

definition API_CACHE :: string where
  "API_CACHE = ''GamifyFit-api-'' @ CACHE_VERSION"

definition STATIC_ASSETS :: "string list" where
  "STATIC_ASSETS =
     [''/'', ''/index.html'', ''/auth.html'', ''/onboarding.html'',
      ''/dashboard.html'', ''/challenges.html'', ''/plan.html'', ''/progress.html'',
      ''/leaderboard.html'', ''/achievements.html'', ''/profile.html'', ''/offline.html'',
      ''/manifest.json'', ''/css/global.css'', ''/css/dashboard.css'', ''/css/challenges.css'',
      ''/css/plan.css'', ''/css/leaderboard.css'', ''/js/auth.js'', ''/js/onboarding.js'',
      ''/js/dashboard.js'', ''/js/googlefit.js'', ''/js/planGenerator.js'', ''/js/gamification.js'',
      ''/js/leaderboard.js'', ''/js/pwa.js'', ''/js/notifications.js'', ''/assets/icons/icon-192x192.png'',
      ''/assets/icons/icon-512x512.png'', ''/assets/icons/maskable-icon-192x192.png'', ''/assets/icons/maskable-icon-512x512.png'']"

definition API_ENDPOINTS :: "string list" where
  "API_ENDPOINTS = [''/backend/api.php'', ''/api/'', ''https://www.googleapis.com/fitness/'']"

definition staticExtensions :: "string list" where
  "staticExtensions =
     [''.css'', ''.js'', ''.png'', ''.jpg'', ''.jpeg'', ''.gif'', ''.svg'', ''.ico'', ''.woff'',
      ''.woff2'']"

definition isApiRequest :: "url \<Rightarrow> bool" where
  "isApiRequest u = list_ex (\<lambda>endpoint. includes_js (href u) endpoint) API_ENDPOINTS"

definition isStaticAsset :: "url \<Rightarrow> bool" where
  "isStaticAsset u =
     (list_ex (\<lambda>ext. endsWith (pathname u) ext) staticExtensions
      \<or> pathname u \<in> set STATIC_ASSETS)"

text \<open>
  The worker's view of the browser: its origin and the cache storage, the named caches in
  the order of their creation. A cache maps the URL of a GET request to the stored
  response; a URL given as a path, as in \<open>caches.match('/offline.html')\<close>, is resolved
  against the origin.
\<close>

record worker =
  origin :: string
  caches :: "(string \<times> (string \<rightharpoonup> response)) list"

definition offlineUrl :: "worker \<Rightarrow> string" where
  "offlineUrl w = origin w @ ''/offline.html''"

text \<open>\<open>caches.match\<close>: the first cache, in creation order, that holds the URL.\<close>

fun caches_match_list :: "(string \<times> (string \<rightharpoonup> response)) list \<Rightarrow> string \<Rightarrow> response option" where
  "caches_match_list [] key = None"
| "caches_match_list ((name, c) # cs) key =
     (case c key of Some r \<Rightarrow> Some r | None \<Rightarrow> caches_match_list cs key)"

definition caches_match :: "worker \<Rightarrow> string \<Rightarrow> response option" where
  "caches_match w key = caches_match_list (caches w) key"

text \<open>\<open>caches.open\<close> creates the cache when it does not exist.\<close>

definition caches_open :: "string \<Rightarrow> worker \<Rightarrow> worker" where
  "caches_open name w =
     (if name \<in> set (map fst (caches w)) then w else w\<lparr>caches := caches w @ [(name, Map.empty)]\<rparr>)"

text \<open>\<open>cache.match\<close> and \<open>cache.put\<close> on the cache of a given name.\<close>

definition cache_match :: "worker \<Rightarrow> string \<Rightarrow> string \<Rightarrow> response option" where
  "cache_match w name key = (case map_of (caches w) name of None \<Rightarrow> None | Some c \<Rightarrow> c key)"

definition cache_put :: "string \<Rightarrow> string \<Rightarrow> response \<Rightarrow> worker \<Rightarrow> worker" where
  "cache_put name key r w =
     w\<lparr>caches := map (\<lambda>(n, c). if n = name then (n, c(key \<mapsto> r)) else (n, c)) (caches w)\<rparr>"

text \<open>\<open>if (networkResponse.ok) { cache = await caches.open(name); cache.put(request, \<dots>) }\<close>\<close>

definition storeIfOk :: "string \<Rightarrow> request \<Rightarrow> response \<Rightarrow> worker \<Rightarrow> worker" where
  "storeIfOk name req r w =
     (if ok r then cache_put name (href (requestUrl req)) r (caches_open name w) else w)"

subsection \<open>Caching strategies\<close>

text \<open>
  A strategy returns what its promise resolves with, \<open>None\<close> for \<open>undefined\<close> or \<open>null\<close>,
  and the worker with its caches updated. \<open>outcome\<close> is the outcome of the strategy's one
  \<open>fetch(request)\<close>, if it comes to it.
\<close>

definition cacheFirstWithNetwork ::
  "request \<Rightarrow> string \<Rightarrow> fetch_outcome \<Rightarrow> worker \<Rightarrow> response option \<times> worker" where
  "cacheFirstWithNetwork req cacheName outcome w =
     (case caches_match w (href (requestUrl req)) of
        Some cachedResponse \<Rightarrow> (Some cachedResponse, w)
      | None \<Rightarrow>
          (case outcome of
             Resolved networkResponse \<Rightarrow> (Some networkResponse, storeIfOk cacheName req networkResponse w)
           | Rejected \<Rightarrow> (caches_match w (offlineUrl w), w)))"

definition offlineJson :: response where
  "offlineJson =
     \<lparr>status = 503, headers = [(''Content-Type'', ''application/json'')],
      body = ''{\"error\":\"offline\",\"message\":\"You are currently offline\"}''\<rparr>"

definition networkFirstWithCache ::
  "request \<Rightarrow> string \<Rightarrow> fetch_outcome \<Rightarrow> worker \<Rightarrow> response option \<times> worker" where
  "networkFirstWithCache req cacheName outcome w =
     (case outcome of
        Resolved networkResponse \<Rightarrow> (Some networkResponse, storeIfOk cacheName req networkResponse w)
      | Rejected \<Rightarrow>
          (case caches_match w (href (requestUrl req)) of
             Some cachedResponse \<Rightarrow> (Some cachedResponse, w)
           | None \<Rightarrow> (Some offlineJson, w)))"

text \<open>
  \<open>staleWhileRevalidate\<close> returns \<open>cachedResponse || fetchPromise || caches.match(\<dots>)\<close>.
  \<open>fetchPromise\<close> is a promise object and so truthy: without a cached response the
  function resolves with what \<open>fetchPromise\<close> resolves with, the network response or
  \<open>null\<close> after a failed fetch, and the third operand is never evaluated.
\<close>

definition staleWhileRevalidate ::
  "request \<Rightarrow> string \<Rightarrow> fetch_outcome \<Rightarrow> worker \<Rightarrow> response option \<times> worker" where
  "staleWhileRevalidate req cacheName outcome w =
     (let w1 = caches_open cacheName w;
          cachedResponse = cache_match w1 cacheName (href (requestUrl req));
          (fetched, w2) =
            (case outcome of
               Resolved networkResponse \<Rightarrow>
                 (Some networkResponse,
                  if ok networkResponse
                  then cache_put cacheName (href (requestUrl req)) networkResponse w1 else w1)
             | Rejected \<Rightarrow> (None, w1))
      in (case cachedResponse of Some r \<Rightarrow> Some r | None \<Rightarrow> fetched, w2))"

definition navigationHandler ::
  "request \<Rightarrow> fetch_outcome \<Rightarrow> worker \<Rightarrow> response option \<times> worker" where
  "navigationHandler req outcome w =
     (case outcome of
        Resolved networkResponse \<Rightarrow> (Some networkResponse, storeIfOk DYNAMIC_CACHE req networkResponse w)
      | Rejected \<Rightarrow>
          (case caches_match w (href (requestUrl req)) of
             Some cachedResponse \<Rightarrow> (Some cachedResponse, w)
           | None \<Rightarrow> (caches_match w (offlineUrl w), w)))"

subsection \<open>The fetch listener\<close>

datatype strategy =
  NetworkFirstWithCache string
| CacheFirstWithNetwork string
| NavigationHandler
| StaleWhileRevalidate string

text \<open>
  The strategy the listener passes to \<open>event.respondWith\<close>; \<open>None\<close> when it returns
  without responding and the browser handles the request itself.
\<close>

definition fetchListener :: "request \<Rightarrow> strategy option" where
  "fetchListener req =
     (let u = requestUrl req
      in if requestMethod req \<noteq> ''GET'' then None
         else if \<not> startsWith (protocol u) ''http'' then None
         else if isApiRequest u then Some (NetworkFirstWithCache API_CACHE)
         else if isStaticAsset u then Some (CacheFirstWithNetwork CACHE_NAME)
         else if mode req = ''navigate'' then Some NavigationHandler
         else Some (StaleWhileRevalidate DYNAMIC_CACHE))"

definition runStrategy ::
  "strategy \<Rightarrow> request \<Rightarrow> fetch_outcome \<Rightarrow> worker \<Rightarrow> response option \<times> worker" where
  "runStrategy s req outcome w =
     (case s of
        NetworkFirstWithCache name \<Rightarrow> networkFirstWithCache req name outcome w
      | CacheFirstWithNetwork name \<Rightarrow> cacheFirstWithNetwork req name outcome w
      | NavigationHandler \<Rightarrow> navigationHandler req outcome w
      | StaleWhileRevalidate name \<Rightarrow> staleWhileRevalidate req name outcome w)"

text \<open>The fetch event: what the client is answered with, when the worker responds at all.\<close>

definition fetchEvent ::
  "request \<Rightarrow> fetch_outcome \<Rightarrow> worker \<Rightarrow> (response option \<times> worker) option" where
  "fetchEvent req outcome w = map_option (\<lambda>s. runStrategy s req outcome w) (fetchListener req)"

text \<open>
  The fallback claimed for a failed fetch: a response, and either the one cached for the
  request or the cached \<open>/offline.html\<close> page.
\<close>

definition offlineFallback :: "worker \<Rightarrow> request \<Rightarrow> response option \<Rightarrow> bool" where
  "offlineFallback w req r =
     (r \<noteq> None
      \<and> (r = caches_match w (href (requestUrl req)) \<or> r = caches_match w (offlineUrl w)))"

text \<open>Sample worker with the offline page precached, and sample requests.\<close>

definition offlinePage :: response where
  "offlinePage = \<lparr>status = 200, headers = [(''Content-Type'', ''text/html'')], body = ''<h1>Offline</h1>''\<rparr>"

definition sampleWorker :: worker where
  "sampleWorker =
     \<lparr>origin = ''https://gamifyfit.example'',
      caches = [(CACHE_NAME, [''https://gamifyfit.example/offline.html'' \<mapsto> offlinePage])]\<rparr>"

definition sampleRequest :: "string \<Rightarrow> string \<Rightarrow> request" where
  "sampleRequest path m =
     \<lparr>requestMethod = ''GET'',
      requestUrl = \<lparr>href = ''https://gamifyfit.example'' @ path, protocol = ''https:'', pathname = path\<rparr>,
      mode = m\<rparr>"

subsection \<open>Background sync of the offline queue\<close>

text \<open>
  An item of the object store \<open>offline_sync_queue\<close>, whose key path is \<open>id\<close>. The store is
  the list of its items in key order, as \<open>getAll\<close> returns them; further fields of an
  item are in the record's extension.
\<close>

record queue_item =
  itemId :: nat
  action_type :: string
  payload :: string

text \<open>
  Requests to IndexedDB can fail: opening the database, reading the store, deleting a key.
  Each helper rejects its promise then (\<open>request.onerror\<close>).
\<close>

record idb =
  openFails :: bool
  getAllFails :: bool
  deleteFails :: "nat \<Rightarrow> bool"

definition deleteFromStore :: "'a queue_item_scheme list \<Rightarrow> nat \<Rightarrow> 'a queue_item_scheme list" where
  "deleteFromStore store key = filter (\<lambda>i. itemId i \<noteq> key) store"

text \<open>
  The loop over the snapshot \<open>queue\<close> shared by both sync functions. \<open>backend\<close> answers the
  POST of an item's payload to the endpoint. The loop returns the store and the items it
  has posted. A rejected fetch and a rejected delete are caught inside the loop and the
  loop goes on.
\<close>

fun syncLoop ::
  "idb \<Rightarrow> (string \<Rightarrow> 'a queue_item_scheme \<Rightarrow> fetch_outcome) \<Rightarrow> string \<Rightarrow> string
   \<Rightarrow> 'a queue_item_scheme list \<Rightarrow> 'a queue_item_scheme list \<times> 'a queue_item_scheme list
   \<Rightarrow> 'a queue_item_scheme list \<times> 'a queue_item_scheme list" where
  "syncLoop db backend actionType endpoint [] (store, posted) = (store, posted)"
| "syncLoop db backend actionType endpoint (item # queue) (store, posted) =
     (if action_type item = actionType
      then
        (case backend endpoint item of
           Rejected \<Rightarrow> syncLoop db backend actionType endpoint queue (store, posted @ [item])
         | Resolved r \<Rightarrow>
             if ok r
             then (if deleteFails db (itemId item)
                   then syncLoop db backend actionType endpoint queue (store, posted @ [item])
                   else syncLoop db backend actionType endpoint queue
                          (deleteFromStore store (itemId item), posted @ [item]))
             else syncLoop db backend actionType endpoint queue (store, posted @ [item]))
      else syncLoop db backend actionType endpoint queue (store, posted))"

text \<open>
  The body of both sync functions: a failure to open the database or to read the store
  is caught by the outer \<open>try\<close> and ends the function.
\<close>

definition syncQueue ::
  "string \<Rightarrow> string \<Rightarrow> idb \<Rightarrow> (string \<Rightarrow> 'a queue_item_scheme \<Rightarrow> fetch_outcome)
   \<Rightarrow> 'a queue_item_scheme list \<Rightarrow> 'a queue_item_scheme list \<times> 'a queue_item_scheme list" where
  "syncQueue actionType endpoint db backend store =
     (if openFails db \<or> getAllFails db then (store, [])
      else syncLoop db backend actionType endpoint store (store, []))"

definition syncChallengeCompletions ::
  "idb \<Rightarrow> (string \<Rightarrow> 'a queue_item_scheme \<Rightarrow> fetch_outcome)
   \<Rightarrow> 'a queue_item_scheme list \<Rightarrow> 'a queue_item_scheme list \<times> 'a queue_item_scheme list" where
  "syncChallengeCompletions =
     syncQueue ''challenge_complete'' ''/backend/api.php?action=complete_challenge''"

definition syncActivityData ::
  "idb \<Rightarrow> (string \<Rightarrow> 'a queue_item_scheme \<Rightarrow> fetch_outcome)
   \<Rightarrow> 'a queue_item_scheme list \<Rightarrow> 'a queue_item_scheme list \<times> 'a queue_item_scheme list" where
  "syncActivityData = syncQueue ''activity_data'' ''/backend/api.php?action=save_activity''"

text \<open>The \<open>sync\<close> listener, by the tag of the event.\<close>

definition syncEvent ::
  "string \<Rightarrow> idb \<Rightarrow> (string \<Rightarrow> 'a queue_item_scheme \<Rightarrow> fetch_outcome)
   \<Rightarrow> 'a queue_item_scheme list \<Rightarrow> 'a queue_item_scheme list \<times> 'a queue_item_scheme list" where
  "syncEvent tag db backend store =
     (if tag = ''sync-challenge-completion'' then syncChallengeCompletions db backend store
      else if tag = ''sync-activity-data'' then syncActivityData db backend store
      else (store, []))"

text \<open>The action type a sync event of a given tag works on, if any.\<close>

definition tagActionType :: "string \<Rightarrow> string option" where
  "tagActionType tag =
     (if tag = ''sync-challenge-completion'' then Some ''challenge_complete''
      else if tag = ''sync-activity-data'' then Some ''activity_data''
      else None)"

text \<open>The endpoint a sync event of a given tag posts to.\<close>

definition tagEndpoint :: "string \<Rightarrow> string" where
  "tagEndpoint tag =
     (if tag = ''sync-challenge-completion'' then ''/backend/api.php?action=complete_challenge''
      else ''/backend/api.php?action=save_activity'')"

text \<open>
  The loop deletes an item when the item has the loop's action type, the backend answers
  its POST with an ok status and the delete request succeeds.
\<close>

definition syncDeletes ::
  "idb \<Rightarrow> (string \<Rightarrow> 'a queue_item_scheme \<Rightarrow> fetch_outcome) \<Rightarrow> string \<Rightarrow> string
   \<Rightarrow> 'a queue_item_scheme \<Rightarrow> bool" where
  "syncDeletes db backend actionType endpoint item =
     (action_type item = actionType
      \<and> (case backend endpoint item of Rejected \<Rightarrow> False | Resolved r \<Rightarrow> ok r)
      \<and> \<not> deleteFails db (itemId item))"

text \<open>Sample queue, backends and databases.\<close>

definition sampleQueue :: "queue_item list" where
  "sampleQueue =
     [\<lparr>itemId = 1, action_type = ''challenge_complete'', payload = ''{\"challenge\":7}''\<rparr>,
      \<lparr>itemId = 2, action_type = ''activity_data'', payload = ''{\"steps\":4000}''\<rparr>,
      \<lparr>itemId = 3, action_type = ''challenge_complete'', payload = ''{\"challenge\":9}''\<rparr>]"

definition respondsWith :: "int \<Rightarrow> string \<Rightarrow> queue_item \<Rightarrow> fetch_outcome" where
  "respondsWith code endpoint item = Resolved \<lparr>status = code, headers = [], body = ''{}''\<rparr>"

definition okExceptThird :: "string \<Rightarrow> queue_item \<Rightarrow> fetch_outcome" where
  "okExceptThird endpoint item =
     (if itemId item = 3 then Rejected else Resolved \<lparr>status = 200, headers = [], body = ''{}''\<rparr>)"

definition reliableDb :: idb where
  "reliableDb = \<lparr>openFails = False, getAllFails = False, deleteFails = (\<lambda>k. False)\<rparr>"

definition failingDeleteDb :: idb where
  "failingDeleteDb = \<lparr>openFails = False, getAllFails = False, deleteFails = (\<lambda>k. True)\<rparr>"

section \<open>OAuth callback (api/auth/callback)\<close>

subsection \<open>Cookies\<close>

text \<open>
  \<open>s.split(c)\<close> for a one-character separator, and \<open>s.trim()\<close>. A header value is a
  string of Latin-1 code units, one \<open>char\<close> each; the white space and line terminators that
  \<open>trim\<close> strips are, among these, tab, line feed, vertical tab, form feed, carriage return,
  space and the no-break space U+00A0.
\<close>

fun split_js :: "char \<Rightarrow> string \<Rightarrow> string list" where
  "split_js c [] = [[]]"
| "split_js c (x # xs) =
     (if x = c then [] # split_js c xs
      else (case split_js c xs of [] \<Rightarrow> [[x]] | w # ws \<Rightarrow> (x # w) # ws))"

definition isSpace :: "char \<Rightarrow> bool" where
  "isSpace c = (c \<in> set [CHR '' '', CHR 0x09, CHR 0x0A, CHR 0x0B, CHR 0x0C, CHR 0x0D, CHR 0xA0])"

definition trim :: "string \<Rightarrow> string" where
  "trim s = rev (dropWhile isSpace (rev (dropWhile isSpace s)))"

text \<open>
  \<open>parseCookies\<close>: of every \<open>;\<close>-separated part, trimmed and split at \<open>=\<close>, the first
  two pieces are the name and the value; the pair is stored when both are non-empty, a
  later pair replacing an earlier one of the same name.
\<close>

definition parseCookie :: "(string \<rightharpoonup> string) \<Rightarrow> string \<Rightarrow> (string \<rightharpoonup> string)" where
  "parseCookie cookies cookie =
     (case split_js CHR ''='' (trim cookie) of
        name # v # rest \<Rightarrow> if name \<noteq> [] \<and> v \<noteq> [] then cookies(name \<mapsto> v) else cookies
      | _ \<Rightarrow> cookies)"

definition parseCookies :: "string option \<Rightarrow> (string \<rightharpoonup> string)" where
  "parseCookies cookieHeader =
     (case cookieHeader of
        None \<Rightarrow> Map.empty
      | Some h \<Rightarrow> if h = [] then Map.empty else foldl parseCookie Map.empty (split_js CHR '';'' h))"

subsection \<open>The request, the services and the response\<close>

record callback_request =
  queryCode :: "string option"
  queryState :: "string option"
  queryError :: "string option"
  headerCookie :: "string option"
  headerForwardedProto :: "string option"
  headerForwardedHost :: "string option"
  headerHost :: string

text \<open>A call that returns or throws.\<close>

datatype 'a attempt = Returns 'a | Throws

record token_response =
  tokenOk :: bool
  tokenText :: "string attempt"
  tokenJson :: "string attempt"

record google_user =
  userId :: string
  userEmail :: string
  userName :: string
  userPicture :: string

record user_response =
  userOk :: bool
  userJson :: "google_user attempt"

text \<open>
  What the handler calls outside the program: the token endpoint (given the code and the
  redirect URI; \<open>tokenJson\<close> is the \<open>access_token\<close> of the body), the userinfo endpoint
  (given the access token), the JWT signature, \<open>encodeURIComponent\<close> and the
  \<open>NODE_ENV\<close> setting.
\<close>

record services =
  exchangeCode :: "string option \<Rightarrow> string \<Rightarrow> token_response attempt"
  fetchUserInfo :: "string \<Rightarrow> user_response attempt"
  signJWT :: "google_user \<Rightarrow> string attempt"
  encodeURIComponent :: "string \<Rightarrow> string"
  production :: bool

record http_response =
  statusCode :: int
  location :: string
  setCookie :: "string list"

definition redirect :: "int \<Rightarrow> string \<Rightarrow> http_response" where
  "redirect code target = \<lparr>statusCode = code, location = target, setCookie = []\<rparr>"

definition getBaseUrl :: "callback_request \<Rightarrow> string" where
  "getBaseUrl req =
     (let proto = (case headerForwardedProto req of
                     None \<Rightarrow> ''https'' | Some p \<Rightarrow> if p = [] then ''https'' else p);
          h = (case headerForwardedHost req of
                 None \<Rightarrow> headerHost req | Some x \<Rightarrow> if x = [] then headerHost req else x)
      in proto @ ''://'' @ h)"

definition joinWith :: "string \<Rightarrow> string list \<Rightarrow> string" where
  "joinWith sep xs = (case xs of [] \<Rightarrow> [] | x # rest \<Rightarrow> foldl (\<lambda>acc y. acc @ sep @ y) x rest)"

definition sessionCookie :: "bool \<Rightarrow> string \<Rightarrow> string" where
  "sessionCookie secure sessionToken =
     joinWith ''; ''
       (filter (\<lambda>s. s \<noteq> [])
          [''session='' @ sessionToken, ''Path=/'', ''HttpOnly'', ''SameSite=Lax'',
           ''Max-Age=604800'', if secure then ''Secure'' else []])"

text \<open>
  The two checks before the \<open>try\<close> block: the provider reports an error (a truthy,
  that is non-empty, \<open>error\<close> parameter), and the \<open>state\<close> parameter differs from the
  \<open>oauth_state\<close> cookie. Then the code is exchanged for tokens.
\<close>

definition providerError :: "callback_request \<Rightarrow> bool" where
  "providerError req = (case queryError req of None \<Rightarrow> False | Some e \<Rightarrow> e \<noteq> [])"

definition stateMismatch :: "callback_request \<Rightarrow> bool" where
  "stateMismatch req = (queryState req \<noteq> parseCookies (headerCookie req) ''oauth_state'')"

definition tokenExchange :: "services \<Rightarrow> callback_request \<Rightarrow> token_response attempt" where
  "tokenExchange sv req = exchangeCode sv (queryCode req) (getBaseUrl req @ ''/api/auth/callback'')"

text \<open>
  The handler. Every \<open>Throws\<close> inside the \<open>try\<close> block ends in the \<open>catch\<close>, which
  redirects with \<open>error=callback_failed\<close>.
\<close>

definition callbackFailed :: http_response where
  "callbackFailed = redirect 302 ''/auth.html?error=callback_failed''"

definition callback_handler :: "services \<Rightarrow> callback_request \<Rightarrow> http_response" where
  "callback_handler sv req =
     (if providerError req
      then redirect 302 (''/auth.html?error='' @ encodeURIComponent sv (the (queryError req)))
      else if stateMismatch req
      then redirect 302 ''/auth.html?error=invalid_state''
      else
        (case tokenExchange sv req of
           Throws \<Rightarrow> callbackFailed
         | Returns tokenResponse \<Rightarrow>
             if \<not> tokenOk tokenResponse
             then (case tokenText tokenResponse of
                     Throws \<Rightarrow> callbackFailed
                   | Returns errorData \<Rightarrow> redirect 302 ''/auth.html?error=token_exchange_failed'')
             else
               (case tokenJson tokenResponse of
                  Throws \<Rightarrow> callbackFailed
                | Returns accessToken \<Rightarrow>
                    (case fetchUserInfo sv accessToken of
                       Throws \<Rightarrow> callbackFailed
                     | Returns userResponse \<Rightarrow>
                         if \<not> userOk userResponse
                         then redirect 302 ''/auth.html?error=failed_to_get_user''
                         else
                           (case userJson userResponse of
                              Throws \<Rightarrow> callbackFailed
                            | Returns user \<Rightarrow>
                                (case signJWT sv user of
                                   Throws \<Rightarrow> callbackFailed
                                 | Returns sessionToken \<Rightarrow>
                                     \<lparr>statusCode = 302, location = ''/onboarding.html'',
                                      setCookie =
                                        [sessionCookie (production sv) sessionToken,
                                         ''oauth_state=; Path=/; HttpOnly; Max-Age=0'']\<rparr>))))))"

text \<open>
  An error redirect: status 302, a target that carries the \<open>error\<close> parameter with the
  given value, and no cookie.
\<close>

definition errorRedirect :: "string \<Rightarrow> http_response \<Rightarrow> bool" where
  "errorRedirect reason r =
     (statusCode r = 302 \<and> location r = ''/auth.html?error='' @ reason \<and> setCookie r = [])"

text \<open>Sample requests and services: everything succeeds unless changed.\<close>

definition sampleCallback :: callback_request where
  "sampleCallback =
     \<lparr>queryCode = Some ''4/0AbCd'', queryState = Some ''f3a1'', queryError = None,
      headerCookie = Some ''theme=dark; oauth_state=f3a1'',
      headerForwardedProto = None, headerForwardedHost = None, headerHost = ''gamifyfit.example''\<rparr>"

definition sampleUser :: google_user where
  "sampleUser = \<lparr>userId = ''1017'', userEmail = ''user@example.com'', userName = ''User'',
                  userPicture = ''https://example.com/u.png''\<rparr>"

definition sampleTokenResponse :: token_response where
  "sampleTokenResponse = \<lparr>tokenOk = True, tokenText = Returns ''{}'', tokenJson = Returns ''ya29.token''\<rparr>"

definition sampleServices :: services where
  "sampleServices =
     \<lparr>exchangeCode = (\<lambda>c uri. Returns sampleTokenResponse),
      fetchUserInfo = (\<lambda>t. Returns \<lparr>userOk = True, userJson = Returns sampleUser\<rparr>),
      signJWT = (\<lambda>u. Returns ''eyJhbGciOiJIUzI1NiJ9.e30.sig''),
      encodeURIComponent = (\<lambda>s. s),
      production = True\<rparr>"

text \<open>Past the two checks, a call inside the \<open>try\<close> block throws.\<close>

definition exceptionThrown :: "services \<Rightarrow> callback_request \<Rightarrow> bool" where
  "exceptionThrown sv req =
     (case tokenExchange sv req of
        Throws \<Rightarrow> True
      | Returns t \<Rightarrow>
          if \<not> tokenOk t then tokenText t = Throws
          else (case tokenJson t of
                  Throws \<Rightarrow> True
                | Returns a \<Rightarrow>
                    (case fetchUserInfo sv a of
                       Throws \<Rightarrow> True
                     | Returns u \<Rightarrow>
                         userOk u
                         \<and> (case userJson u of
                               Throws \<Rightarrow> True
                             | Returns usr \<Rightarrow> signJWT sv usr = Throws))))"

section \<open>ActivityTrackerManager (js/activityTracker.js)\<close>

text \<open>
  The tracker object with the \<open>localStorage\<close> of its window and the global
  \<open>window.Gamification\<close>, which is absent (\<open>None\<close>) on a page that does not load the
  gamification script. The clock is read once in a call.
\<close>

record tracker =
  tdata :: adata
  trackerStorage :: storage
  windowGamification :: "gamification option"

definition tracker_storageKey :: string where
  "tracker_storageKey = ''GamifyFit_activity''"

definition tracker_save :: "tracker \<Rightarrow> tracker" where
  "tracker_save t = t\<lparr>trackerStorage := (trackerStorage t)(tracker_storageKey \<mapsto> ActivityJSON (tdata t))\<rparr>"

definition getDefaultGoals :: "string \<rightharpoonup> int" where
  "getDefaultGoals =
     [''steps'' \<mapsto> 10000, ''calories'' \<mapsto> 600, ''activeMinutes'' \<mapsto> 60, ''water'' \<mapsto> 8]"

text \<open>
  \<open>load\<close>, as in the other manager: a value under the key that is not the JSON of a tracker
  data object has no model.
\<close>

definition tracker_load :: "storage \<Rightarrow> adata option" where
  "tracker_load st =
     (case st tracker_storageKey of
        None \<Rightarrow> Some \<lparr>days = Map.empty, goals = getDefaultGoals, trackingEnabled = False\<rparr>
      | Some (ActivityJSON d) \<Rightarrow> Some d
      | Some (GamificationJSON g) \<Rightarrow> None)"

definition todayKey :: "jsdate \<Rightarrow> int" where
  "todayKey now = isoDateKey now"

definition emptyDay :: day_entry where
  "emptyDay =
     \<lparr>daySteps = 0, dayCalories = 0, dayActiveMinutes = 0, dayWater = 0, dayWeight = None,
      dayActivities = [], dayLastUpdated = None\<rparr>"

text \<open>\<open>getDay\<close> creates a missing entry in the data (it does not save it).\<close>

definition getDay :: "int \<Rightarrow> tracker \<Rightarrow> tracker" where
  "getDay dateKey t =
     (case days (tdata t) dateKey of
        None \<Rightarrow> t\<lparr>tdata := (tdata t)\<lparr>days := (days (tdata t))(dateKey \<mapsto> emptyDay)\<rparr>\<rparr>
      | Some d \<Rightarrow> t)"

text \<open>\<open>const day = this.getDay(key); day.field = \<dots>\<close>: the entry is changed in place.\<close>

definition updateDay :: "int \<Rightarrow> (day_entry \<Rightarrow> day_entry) \<Rightarrow> tracker \<Rightarrow> tracker" where
  "updateDay dateKey f t =
     (let t1 = getDay dateKey t
      in case days (tdata t1) dateKey of
           None \<Rightarrow> t1
         | Some d \<Rightarrow> t1\<lparr>tdata := (tdata t1)\<lparr>days := (days (tdata t1))(dateKey \<mapsto> f d)\<rparr>\<rparr>)"

text \<open>
  The summaries and \<open>dispatchUpdate\<close> read the data through \<open>getDay\<close>; their effect on the
  state is that of \<open>getDay\<close>. The percentages they return are not modelled.
  \<open>calendar d i\<close> is the date \<open>d\<close> after \<open>d.setDate(d.getDate() - i)\<close>.
\<close>

definition getDaySummary :: "int \<Rightarrow> tracker \<Rightarrow> tracker" where
  "getDaySummary dateKey t = getDay dateKey t"

definition getTodaySummary :: "jsdate \<Rightarrow> tracker \<Rightarrow> tracker" where
  "getTodaySummary now t = getDay (todayKey now) t"

definition getWeekSummary :: "(jsdate \<Rightarrow> int \<Rightarrow> jsdate) \<Rightarrow> jsdate \<Rightarrow> tracker \<Rightarrow> tracker" where
  "getWeekSummary calendar now t =
     foldl (\<lambda>t' i. getDaySummary (isoDateKey (calendar now i)) t') t [6, 5, 4, 3, 2, 1, 0]"

definition getWeekTotals :: "(jsdate \<Rightarrow> int \<Rightarrow> jsdate) \<Rightarrow> jsdate \<Rightarrow> tracker \<Rightarrow> tracker" where
  "getWeekTotals calendar now t = getWeekSummary calendar now t"

definition getStatus :: "jsdate \<Rightarrow> tracker \<Rightarrow> tracker" where
  "getStatus now t = getTodaySummary now t"

definition dispatchUpdate :: "jsdate \<Rightarrow> tracker \<Rightarrow> tracker" where
  "dispatchUpdate now t = getTodaySummary now t"

text \<open>
  \<open>if (window.Gamification) window.Gamification.f(\<dots>)\<close>: the call runs on the one
  \<open>localStorage\<close> of the window.
\<close>

definition callGamification :: "(gamification \<Rightarrow> gamification) \<Rightarrow> tracker \<Rightarrow> tracker" where
  "callGamification f t =
     (case windowGamification t of
        None \<Rightarrow> t
      | Some g \<Rightarrow>
          (let g' = f (g\<lparr>localStorage := trackerStorage t\<rparr>)
           in t\<lparr>windowGamification := Some g', trackerStorage := localStorage g'\<rparr>))"

definition enableTracking :: "tracker \<Rightarrow> tracker" where
  "enableTracking t = tracker_save (t\<lparr>tdata := (tdata t)\<lparr>trackingEnabled := True\<rparr>\<rparr>)"

definition tracker_logSteps :: "int \<Rightarrow> jsdate \<Rightarrow> tracker \<Rightarrow> tracker" where
  "tracker_logSteps n now t =
     (let t1 = updateDay (todayKey now)
                 (\<lambda>d. d\<lparr>daySteps := daySteps d + n, dayLastUpdated := Some now\<rparr>) t;
          t2 = tracker_save t1;
          t3 = callGamification (\<lambda>g. snd (logSteps n g)) t2
      in dispatchUpdate now t3)"

definition logCalories :: "int \<Rightarrow> jsdate \<Rightarrow> tracker \<Rightarrow> tracker" where
  "logCalories amount now t =
     dispatchUpdate now (tracker_save (updateDay (todayKey now)
       (\<lambda>d. d\<lparr>dayCalories := dayCalories d + amount, dayLastUpdated := Some now\<rparr>) t))"

definition logActiveMinutes :: "int \<Rightarrow> jsdate \<Rightarrow> tracker \<Rightarrow> tracker" where
  "logActiveMinutes minutes now t =
     dispatchUpdate now (tracker_save (updateDay (todayKey now)
       (\<lambda>d. d\<lparr>dayActiveMinutes := dayActiveMinutes d + minutes, dayLastUpdated := Some now\<rparr>) t))"

definition logWater :: "int \<Rightarrow> jsdate \<Rightarrow> tracker \<Rightarrow> tracker" where
  "logWater glasses now t =
     dispatchUpdate now (tracker_save (updateDay (todayKey now)
       (\<lambda>d. d\<lparr>dayWater := dayWater d + glasses, dayLastUpdated := Some now\<rparr>) t))"

record activity_input =
  inputType :: "string option"
  inputDuration :: "int option"
  inputCalories :: "int option"
  inputSteps :: "int option"
  inputNotes :: "string option"

definition logActivity :: "activity_input \<Rightarrow> jsdate \<Rightarrow> tracker \<Rightarrow> tracker" where
  "logActivity a now t =
     (let t1 = updateDay (todayKey now)
                 (\<lambda>d. d\<lparr>daySteps := daySteps d + orZero (inputSteps a),
                         dayCalories := dayCalories d + orZero (inputCalories a),
                         dayActiveMinutes := dayActiveMinutes d + orZero (inputDuration a),
                         dayActivities := dayActivities d @
                           [\<lparr>actType = orElse (inputType a) ''general'',
                             actDuration = orZero (inputDuration a),
                             actCalories = orZero (inputCalories a),
                             actSteps = orZero (inputSteps a),
                             actNotes = orElse (inputNotes a) [],
                             actTimestamp = now\<rparr>],
                         dayLastUpdated := Some now\<rparr>) t;
          t2 = tracker_save t1;
          t3 = callGamification
                 (\<lambda>g. snd (logWorkout
                    \<lparr>duration = Some (orZero (inputDuration a)),
                     calories = Some (orZero (inputCalories a)),
                     workoutType = Some (orElse (inputType a) ''general'')\<rparr> now g)) t2
      in dispatchUpdate now t3)"

definition logWeight :: "rat \<Rightarrow> jsdate \<Rightarrow> tracker \<Rightarrow> tracker" where
  "logWeight kg now t =
     dispatchUpdate now (tracker_save (updateDay (todayKey now)
       (\<lambda>d. d\<lparr>dayWeight := Some kg, dayLastUpdated := Some now\<rparr>) t))"

definition setGoals :: "(string \<rightharpoonup> int) \<Rightarrow> tracker \<Rightarrow> tracker" where
  "setGoals newGoals t = tracker_save (t\<lparr>tdata := (tdata t)\<lparr>goals := goals (tdata t) ++ newGoals\<rparr>\<rparr>)"

definition resetToday :: "jsdate \<Rightarrow> tracker \<Rightarrow> tracker" where
  "resetToday now t =
     dispatchUpdate now (tracker_save
       (t\<lparr>tdata := (tdata t)\<lparr>days := (days (tdata t))(todayKey now := None)\<rparr>\<rparr>))"

text \<open>
  \<open>seedDemoData\<close> fills the last seven days with random numbers, here the parameter
  \<open>draws\<close>: for the loop index \<open>i\<close>, the steps, calories, active minutes and glasses of water.
\<close>

definition seedDay ::
  "(jsdate \<Rightarrow> int \<Rightarrow> jsdate) \<Rightarrow> jsdate \<Rightarrow> (nat \<Rightarrow> int \<times> int \<times> int \<times> int) \<Rightarrow> tracker \<Rightarrow> nat
   \<Rightarrow> tracker" where
  "seedDay calendar today draws t i =
     (let d = calendar today (int i);
          (s, c, m, w) = draws i
      in t\<lparr>tdata := (tdata t)\<lparr>days := (days (tdata t))(isoDateKey d \<mapsto>
            \<lparr>daySteps = s, dayCalories = c, dayActiveMinutes = m, dayWater = w, dayWeight = None,
             dayActivities = [], dayLastUpdated = Some d\<rparr>)\<rparr>\<rparr>)"

definition seedDemoData ::
  "(jsdate \<Rightarrow> int \<Rightarrow> jsdate) \<Rightarrow> jsdate \<Rightarrow> (nat \<Rightarrow> int \<times> int \<times> int \<times> int) \<Rightarrow> tracker
   \<Rightarrow> tracker" where
  "seedDemoData calendar today draws t =
     (let t1 = foldl (seedDay calendar today draws) t [6, 5, 4, 3, 2, 1, 0];
          t2 = t1\<lparr>tdata := (tdata t1)\<lparr>trackingEnabled := True\<rparr>\<rparr>
      in dispatchUpdate today (tracker_save t2))"

subsection \<open>Writes to localStorage\<close>

text \<open>The storage \<open>st'\<close> differs from \<open>st\<close> at most under the keys in \<open>ks\<close>.\<close>

definition writesOnly :: "string set \<Rightarrow> storage \<Rightarrow> storage \<Rightarrow> bool" where
  "writesOnly ks st st' = (\<forall>k. k \<notin> ks \<longrightarrow> st' k = st k)"

text \<open>A sample tracker, without and with the gamification manager on the page.\<close>

definition sampleTracker :: "gamification option \<Rightarrow> tracker" where
  "sampleTracker g =
     \<lparr>tdata = \<lparr>days = Map.empty, goals = getDefaultGoals, trackingEnabled = False\<rparr>,
      trackerStorage = [''GamifyFit_workout_plan'' \<mapsto> GamificationJSON getDefaultData],
      windowGamification = g\<rparr>"

section \<open>Levels and XP\<close>

text \<open>The threshold table in closed form: entry \<open>j\<close> is the sum of the first \<open>j\<close> summands.\<close>

lemma thresholds_closed_form:
  "foldl (thresholds_push req) [0] [1..<Suc n] = map (\<lambda>j. \<Sum>i = 1..j. req i) [0..<Suc n]"
proof (induction n)
  case 0
  show ?case by simp
next
  case (Suc n)
  have "foldl (thresholds_push req) [0] [1..<Suc (Suc n)]
        = thresholds_push req (foldl (thresholds_push req) [0] [1..<Suc n]) (Suc n)"
    by simp
  also have "\<dots> = thresholds_push req (map (\<lambda>j. \<Sum>i = 1..j. req i) [0..<Suc n]) (Suc n)"
    by (simp only: Suc.IH)
  also have "\<dots> = map (\<lambda>j. \<Sum>i = 1..j. req i) [0..<Suc (Suc n)]"
    unfolding thresholds_push_def
    by (simp add: nth_append del: upt_Suc) (simp)
  finally show ?case .
qed

lemma generateLevelThresholds_nth:
  "j \<le> 50 \<Longrightarrow> generateLevelThresholds req ! j = (\<Sum>i = 1..j. req i)"
  unfolding generateLevelThresholds_def
  using thresholds_closed_form [of req 50] by (simp del: upt_Suc)

lemma generateLevelThresholds_length: "length (generateLevelThresholds req) = 51"
  unfolding generateLevelThresholds_def
  using thresholds_closed_form [of req 50] by (simp del: upt_Suc)

lemma calculateLevel_loop_found:
  "k < n \<Longrightarrow> ths ! k \<le> x \<Longrightarrow> (\<forall>j. k < j \<and> j < n \<longrightarrow> x < ths ! j)
   \<Longrightarrow> calculateLevel_loop ths x n = int k + 1"
proof (induction n)
  case 0
  then show ?case by simp
next
  case (Suc n)
  show ?case
  proof (cases "k = n")
    case True
    with Suc.prems show ?thesis by simp
  next
    case False
    with Suc.prems have "k < n" by simp
    moreover from Suc.prems False have "x < ths ! n" by simp
    moreover have "calculateLevel_loop ths x n = int k + 1"
      using Suc.IH [OF \<open>k < n\<close>] Suc.prems by simp
    ultimately show ?thesis by simp
  qed
qed

lemma xpRequired_exact_ge: "100 \<le> xpRequired_exact i"
proof -
  have "(1::rat) \<le> (23 / 20) ^ (i - 1)" by (rule one_le_power) simp
  then have "(100::rat) \<le> 100 * (23 / 20) ^ (i - 1)" by simp
  then have "\<lfloor>100::rat\<rfloor> \<le> \<lfloor>100 * (23 / 20 :: rat) ^ (i - 1)\<rfloor>" by (rule floor_mono)
  then show ?thesis by (simp add: xpRequired_exact_def)
qed

lemma calculateLevel_150:
  assumes r1: "req 1 = 100" and r: "\<forall>i\<in>{2..50}. 100 \<le> req i"
  shows "calculateLevel (generateLevelThresholds req) 150 = 2"
proof -
  let ?ths = "generateLevelThresholds req"
  have big: "150 < ?ths ! j" if "1 < j" "j < 51" for j
  proof -
    have "{1..j} = {1, 2} \<union> {3..j}" using that by auto
    then have "(\<Sum>i = 1..j. req i) = req 1 + req 2 + (\<Sum>i = 3..j. req i)"
      by (simp add: sum.union_disjoint)
    moreover have "0 \<le> (\<Sum>i = 3..j. req i)"
    proof (rule sum_nonneg)
      fix i assume "i \<in> {3..j}"
      then have "i \<in> {2..50}" using that by simp
      then have "100 \<le> req i" using r by blast
      then show "0 \<le> req i" by simp
    qed
    moreover have "100 \<le> req 2" using r by simp
    ultimately show ?thesis using r1 that by (simp add: generateLevelThresholds_nth)
  qed
  have "calculateLevel_loop ?ths 150 51 = int 1 + 1"
    by (rule calculateLevel_loop_found) (use big r1 in \<open>auto simp: generateLevelThresholds_nth\<close>)
  then show ?thesis by (simp add: calculateLevel_def generateLevelThresholds_length)
qed



text \<open>
  Claim C4. A manager constructed with nothing saved under its key has the default data
  (\<open>xp = 0\<close>, level 1). The XP threshold for level 2 is 100 because the first summand is
  \<open>100 * Math.pow(1.15, 0) = 100\<close>; every later summand is at least 100 as well, which is
  all the theorem asks of the double-precision products. Then \<open>awardXP(150)\<close> returns
  \<open>totalXP = 150\<close>, \<open>level = 2\<close> and \<open>leveledUp = true\<close>, and the data holds the same values.
\<close>

theorem awardXP_150_reaches_level_2:
  assumes "xpRequired 1 = 100" and "\<forall>i\<in>{2..50}. 100 \<le> xpRequired i"
    and "st storageKey = None"
  shows "\<exists>m. GamificationManager xpRequired st = Some m
           \<and> xp (data m) = 0 \<and> level (data m) = 1 \<and> levelThresholds m ! 1 = 100
           \<and> totalXP (fst (awardXP 150 source m)) = 150
           \<and> resultLevel (fst (awardXP 150 source m)) = 2
           \<and> leveledUp (fst (awardXP 150 source m))
           \<and> xp (data (snd (awardXP 150 source m))) = 150
           \<and> level (data (snd (awardXP 150 source m))) = 2"
proof -
  let ?m = "\<lparr>data = getDefaultData, levelThresholds = generateLevelThresholds xpRequired,
             localStorage = st\<rparr>"
  have m: "GamificationManager xpRequired st = Some ?m"
    using assms(3) by (simp add: GamificationManager_def load_def)
  have lvl: "calculateLevel (generateLevelThresholds xpRequired) 150 = 2"
    using assms(1,2) by (rule calculateLevel_150)
  have th1: "generateLevelThresholds xpRequired ! 1 = 100"
    using assms(1) by (simp add: generateLevelThresholds_nth)
  have "awardXP 150 source ?m =
          (\<lparr>xpAwarded = 150, totalXP = 150, resultLevel = 2, leveledUp = True,
            newTitle = Some (getLevelTitle 2)\<rparr>,
           save (?m\<lparr>data := getDefaultData\<lparr>xp := 150, level := 2,
                   history := [XpEntry 150 source]\<rparr>\<rparr>))"
    by (simp add: awardXP_def checkBadges_def getBadgeDefinitions_def getDefaultData_def lvl
        save_def Let_def)
  then show ?thesis using m th1 by (simp add: getDefaultData_def save_def)
qed

theorem awardXP_150_reaches_level_2_witness:
  "xpRequired_exact 1 = 100 \<and> (\<forall>i. 100 \<le> xpRequired_exact i)
   \<and> (Map.empty :: storage) storageKey = None
   \<and> (\<exists>m. GamificationManager xpRequired_exact Map.empty = Some m
           \<and> xp (data m) = 0 \<and> level (data m) = 1 \<and> levelThresholds m ! 1 = 100
           \<and> totalXP (fst (awardXP 150 ''manual'' m)) = 150
           \<and> resultLevel (fst (awardXP 150 ''manual'' m)) = 2
           \<and> leveledUp (fst (awardXP 150 ''manual'' m))
           \<and> xp (data (snd (awardXP 150 ''manual'' m))) = 150
           \<and> level (data (snd (awardXP 150 ''manual'' m))) = 2)"
proof -
  have a: "xpRequired_exact 1 = 100" by (simp add: xpRequired_exact_def)
  have b: "\<forall>i\<in>{2..50}. 100 \<le> xpRequired_exact i" by (simp add: xpRequired_exact_ge)
  have c: "(Map.empty :: storage) storageKey = None" by simp
  show ?thesis
    using awardXP_150_reaches_level_2 [OF a b c, of "''manual''"] a xpRequired_exact_ge by simp
qed

section \<open>Frame lemmas of the gamification manager\<close>

lemma save_data [simp]: "data (save m) = data m"
  and save_levelThresholds [simp]: "levelThresholds (save m) = levelThresholds m"
  by (simp_all add: save_def)

lemma save_levelConsistent [simp]: "levelConsistent (save m) = levelConsistent m"
  by (simp add: levelConsistent_def)

lemma awardBadge_frame [simp]:
  "levelThresholds (awardBadge b m) = levelThresholds m"
  "localStorage (awardBadge b m) = localStorage m"
  "streak (data (awardBadge b m)) = streak (data m)"
  "stats (data (awardBadge b m)) = stats (data m)"
  "challenges (data (awardBadge b m)) = challenges (data m)"
  "badges (data (awardBadge b m)) = badges (data m) @ [badgeId b]"
  "xp (data (awardBadge b m)) = xp (data m) + badgeXp b"
  by (simp_all add: awardBadge_def Let_def)

lemma awardBadge_levelConsistent [simp]: "levelConsistent (awardBadge b m)"
  by (simp add: levelConsistent_def awardBadge_def Let_def)

lemma checkBadges_loop_frame:
  "levelThresholds (snd (checkBadges_loop bs new m)) = levelThresholds m"
  "localStorage (snd (checkBadges_loop bs new m)) = localStorage m"
  "streak (data (snd (checkBadges_loop bs new m))) = streak (data m)"
  "stats (data (snd (checkBadges_loop bs new m))) = stats (data m)"
  "challenges (data (snd (checkBadges_loop bs new m))) = challenges (data m)"
  by (induction bs new m rule: checkBadges_loop.induct; simp)+

lemma checkBadges_loop_keeps_consistent:
  "levelConsistent m \<Longrightarrow> levelConsistent (snd (checkBadges_loop bs new m))"
  by (induction bs new m rule: checkBadges_loop.induct) simp_all

lemma checkBadges_loop_xp_changed:
  "xp (data (snd (checkBadges_loop bs new m))) \<noteq> xp (data m)
   \<Longrightarrow> levelConsistent (snd (checkBadges_loop bs new m))"
  by (induction bs new m rule: checkBadges_loop.induct)
     (auto simp: checkBadges_loop_keeps_consistent split: if_splits)

lemma checkBadges_loop_acc:
  "checkBadges_loop bs new m
   = (new @ fst (checkBadges_loop bs [] m), snd (checkBadges_loop bs [] m))"
proof (induction bs arbitrary: new m)
  case Nil
  show ?case by simp
next
  case (Cons b bs)
  show ?case
    using Cons.IH [of new m] Cons.IH [of "new @ [b]" "awardBadge b m"]
      Cons.IH [of "[b]" "awardBadge b m"]
    by simp
qed

lemma checkBadges_loop_badges:
  "badges (data (snd (checkBadges_loop bs [] m)))
   = badges (data m) @ map badgeId (fst (checkBadges_loop bs [] m))"
proof (induction bs arbitrary: m)
  case Nil
  show ?case by simp
next
  case (Cons b bs)
  show ?case
    using Cons.IH [of m] Cons.IH [of "awardBadge b m"]
      checkBadges_loop_acc [of bs "[b]" "awardBadge b m"]
    by simp
qed

lemma checkBadges_loop_xp:
  "xp (data (snd (checkBadges_loop bs [] m)))
   = xp (data m) + sum_list (map badgeXp (fst (checkBadges_loop bs [] m)))"
proof (induction bs arbitrary: m)
  case Nil
  show ?case by simp
next
  case (Cons b bs)
  show ?case
    using Cons.IH [of m] Cons.IH [of "awardBadge b m"]
      checkBadges_loop_acc [of bs "[b]" "awardBadge b m"]
    by simp
qed

lemma checkBadges_loop_new_ids:
  "distinct (map badgeId (fst (checkBadges_loop bs [] m)))
   \<and> set (map badgeId (fst (checkBadges_loop bs [] m))) \<inter> set (badges (data m)) = {}"
proof (induction bs arbitrary: m)
  case Nil
  show ?case by simp
next
  case (Cons b bs)
  show ?case
    using Cons.IH [of m] Cons.IH [of "awardBadge b m"]
      checkBadges_loop_acc [of bs "[b]" "awardBadge b m"]
    by auto
qed

lemma checkBadges_loop_subset:
  "set (fst (checkBadges_loop bs [] m)) \<subseteq> set bs"
proof (induction bs arbitrary: m)
  case Nil
  show ?case by simp
next
  case (Cons b bs)
  show ?case
    using Cons.IH [of m] Cons.IH [of "awardBadge b m"]
      checkBadges_loop_acc [of bs "[b]" "awardBadge b m"]
    by auto
qed


lemma checkBadges_snd:
  "data (snd (checkBadges m)) = data (snd (checkBadges_loop getBadgeDefinitions [] m))"
  "levelThresholds (snd (checkBadges m)) = levelThresholds m"
  "fst (checkBadges m) = fst (checkBadges_loop getBadgeDefinitions [] m)"
  by (simp_all add: checkBadges_def split_beta checkBadges_loop_frame)

lemma checkBadges_frame [simp]:
  "streak (data (snd (checkBadges m))) = streak (data m)"
  "stats (data (snd (checkBadges m))) = stats (data m)"
  "challenges (data (snd (checkBadges m))) = challenges (data m)"
  by (simp_all add: checkBadges_snd checkBadges_loop_frame)

lemma checkBadges_levelConsistent:
  "levelConsistent m \<or> xp (data (snd (checkBadges m))) \<noteq> xp (data m)
   \<Longrightarrow> levelConsistent (snd (checkBadges m))"
  using checkBadges_loop_keeps_consistent [of m getBadgeDefinitions "[]"]
    checkBadges_loop_xp_changed [of getBadgeDefinitions "[]" m]
  by (auto simp: levelConsistent_def checkBadges_snd checkBadges_loop_frame)

lemma checkBadges_badges:
  "badges (data (snd (checkBadges m))) = badges (data m) @ map badgeId (fst (checkBadges m))"
  by (simp add: checkBadges_snd checkBadges_loop_badges)

lemma checkBadges_prefix: "prefix (badges (data m)) (badges (data (snd (checkBadges m))))"
  by (simp add: checkBadges_badges)

lemma awardXP_snd: "snd (awardXP amount source m) = save (snd (checkBadges (addXP amount source m)))"
  by (simp add: awardXP_def addXP_def Let_def)

lemma addXP_frame [simp]:
  "levelThresholds (addXP a s m) = levelThresholds m"
  "localStorage (addXP a s m) = localStorage m"
  "streak (data (addXP a s m)) = streak (data m)"
  "stats (data (addXP a s m)) = stats (data m)"
  "challenges (data (addXP a s m)) = challenges (data m)"
  "badges (data (addXP a s m)) = badges (data m)"
  "xp (data (addXP a s m)) = xp (data m) + a"
  "levelConsistent (addXP a s m)"
  by (simp_all add: addXP_def levelConsistent_def)

lemma awardXP_frame [simp]:
  "levelThresholds (snd (awardXP a s m)) = levelThresholds m"
  "streak (data (snd (awardXP a s m))) = streak (data m)"
  "stats (data (snd (awardXP a s m))) = stats (data m)"
  "challenges (data (snd (awardXP a s m))) = challenges (data m)"
  by (simp_all add: awardXP_snd checkBadges_snd checkBadges_loop_frame)

lemma awardXP_levelConsistent [simp]: "levelConsistent (snd (awardXP a s m))"
  by (simp add: awardXP_snd checkBadges_levelConsistent)

lemma daysBackString_eq [simp]: "daysBackString now n = toDateString now - n"
  by (simp add: daysBackString_def)

lemma streakStarted_frame [simp]:
  "levelThresholds (streakStarted now m) = levelThresholds m"
  "localStorage (streakStarted now m) = localStorage m"
  "xp (data (streakStarted now m)) = xp (data m)"
  "badges (data (streakStarted now m)) = badges (data m)"
  "streak (data (streakStarted now m)) = advanceStreak now (streak (data m))"
  "levelConsistent (streakStarted now m) = levelConsistent m"
  by (simp_all add: streakStarted_def levelConsistent_def)

lemma updateStreak_same_day:
  assumes "map_option toDateString (lastActivity (streak (data m))) = Some (toDateString now)"
  shows "updateStreak now m
       = (\<lparr>streakUpdated = False, resultCurrent = current (streak (data m)),
            resultLongest = None, resultBonus = None\<rparr>, m)"
  using assms by (cases "lastActivity (streak (data m))") (simp_all add: updateStreak_def Let_def)

lemma updateStreak_other_day:
  assumes "map_option toDateString (lastActivity (streak (data m))) \<noteq> Some (toDateString now)"
  shows "snd (updateStreak now m)
         = save (snd (checkBadges
             (if calculateStreakBonus (current (advanceStreak now (streak (data m)))) > 0
              then snd (awardXP (calculateStreakBonus (current (advanceStreak now (streak (data m)))))
                         ''streak_bonus'' (streakStarted now m))
              else streakStarted now m)))"
    and "streakUpdated (fst (updateStreak now m))"
    and "resultCurrent (fst (updateStreak now m)) = current (streak (data (snd (updateStreak now m))))"
  using assms
  by (cases "lastActivity (streak (data m))"; simp add: updateStreak_def Let_def streakStarted_def)+

lemma updateStreak_streak:
  assumes "map_option toDateString (lastActivity (streak (data m))) \<noteq> Some (toDateString now)"
  shows "streak (data (snd (updateStreak now m))) = advanceStreak now (streak (data m))"
  by (simp add: updateStreak_other_day(1) [OF assms])

lemma updateStreak_levelThresholds [simp]:
  "levelThresholds (snd (updateStreak now m)) = levelThresholds m"
  by (cases "map_option toDateString (lastActivity (streak (data m))) = Some (toDateString now)")
     (simp_all add: updateStreak_same_day updateStreak_other_day(1) checkBadges_snd)

lemma updateStreak_levelConsistent:
  assumes "levelConsistent m \<or> xp (data (snd (updateStreak now m))) \<noteq> xp (data m)"
  shows "levelConsistent (snd (updateStreak now m))"
proof (cases "map_option toDateString (lastActivity (streak (data m))) = Some (toDateString now)")
  case True
  then show ?thesis using assms by (simp add: updateStreak_same_day)
next
  case False
  note r = updateStreak_other_day(1) [OF False]
  show ?thesis
  proof (cases "calculateStreakBonus (current (advanceStreak now (streak (data m)))) > 0")
    case True
    then show ?thesis by (simp add: r checkBadges_levelConsistent)
  next
    case False
    then show ?thesis using assms by (simp add: r checkBadges_levelConsistent)
  qed
qed

section \<open>Badges are kept\<close>

lemma badgesExtended_refl: "badges (data m') = badges (data m) \<Longrightarrow> badgesExtended m m'"
  by (simp add: badgesExtended_def)

lemma badgesExtended_trans:
  "badgesExtended m m' \<Longrightarrow> badgesExtended m' m'' \<Longrightarrow> badgesExtended m m''"
  unfolding badgesExtended_def using prefix_order.trans by blast

lemma checkBadges_distinct:
  assumes "distinct (badges (data m))"
  shows "distinct (badges (data (snd (checkBadges m))))"
  using assms checkBadges_loop_new_ids [of getBadgeDefinitions m]
  by (auto simp: checkBadges_snd(1) checkBadges_loop_badges)

lemma checkBadges_badgesExtended: "badgesExtended m (snd (checkBadges m))"
  by (simp add: badgesExtended_def checkBadges_prefix checkBadges_distinct)

lemma awardXP_badgesExtended: "badgesExtended m (snd (awardXP a s m))"
proof -
  have "badgesExtended m (addXP a s m)" by (simp add: badgesExtended_refl)
  moreover have "badgesExtended (addXP a s m) (snd (checkBadges (addXP a s m)))"
    by (rule checkBadges_badgesExtended)
  ultimately have "badgesExtended m (snd (checkBadges (addXP a s m)))"
    by (rule badgesExtended_trans)
  then show ?thesis by (simp add: awardXP_snd badgesExtended_def)
qed

lemma updateStreak_badgesExtended: "badgesExtended m (snd (updateStreak now m))"
proof (cases "map_option toDateString (lastActivity (streak (data m))) = Some (toDateString now)")
  case True
  then show ?thesis by (simp add: updateStreak_same_day badgesExtended_refl)
next
  case False
  note r = updateStreak_other_day(1) [OF False]
  let ?b = "calculateStreakBonus (current (advanceStreak now (streak (data m))))"
  let ?m2 = "if ?b > 0 then snd (awardXP ?b ''streak_bonus'' (streakStarted now m))
             else streakStarted now m"
  have s: "badgesExtended m (streakStarted now m)" by (simp add: badgesExtended_refl)
  have "badgesExtended (streakStarted now m) ?m2"
    by (simp add: awardXP_badgesExtended badgesExtended_refl)
  with s have "badgesExtended m ?m2" by (rule badgesExtended_trans)
  moreover have "badgesExtended ?m2 (snd (checkBadges ?m2))" by (rule checkBadges_badgesExtended)
  ultimately have "badgesExtended m (snd (checkBadges ?m2))" by (rule badgesExtended_trans)
  then show ?thesis by (simp add: r badgesExtended_def)
qed

section \<open>Workouts, steps and challenges\<close>

lemma logWorkout_snd:
  "snd (logWorkout w now m)
   = snd (updateStreak now
       (snd (awardXP (workoutXP w) (''workout_'' @ orElse (workoutType w) ''general'')
          (workoutCounted w m))))"
  by (simp add: logWorkout_def workoutCounted_def workoutXP_def Let_def split_beta)

lemma workoutCounted_frame [simp]:
  "levelThresholds (workoutCounted w m) = levelThresholds m"
  "localStorage (workoutCounted w m) = localStorage m"
  "xp (data (workoutCounted w m)) = xp (data m)"
  "badges (data (workoutCounted w m)) = badges (data m)"
  "streak (data (workoutCounted w m)) = streak (data m)"
  by (simp_all add: workoutCounted_def)

lemma logWorkout_levelConsistent: "levelConsistent (snd (logWorkout w now m))"
  by (simp add: logWorkout_snd updateStreak_levelConsistent)

lemma logWorkout_badgesExtended: "badgesExtended m (snd (logWorkout w now m))"
proof -
  let ?m1 = "workoutCounted w m"
  let ?m2 = "snd (awardXP (workoutXP w) (''workout_'' @ orElse (workoutType w) ''general'') ?m1)"
  have "badgesExtended m ?m1" by (simp add: badgesExtended_refl)
  moreover have "badgesExtended ?m1 ?m2" by (rule awardXP_badgesExtended)
  ultimately have "badgesExtended m ?m2" by (rule badgesExtended_trans)
  moreover have "badgesExtended ?m2 (snd (updateStreak now ?m2))"
    by (rule updateStreak_badgesExtended)
  ultimately show ?thesis unfolding logWorkout_snd by (rule badgesExtended_trans)
qed

lemma logSteps_snd:
  "snd (logSteps steps m)
   = (if steps div 100 > 0 then snd (awardXP (steps div 100) ''steps'' (stepsCounted steps m))
      else save (stepsCounted steps m))"
  by (simp add: logSteps_def stepsCounted_def Let_def split_beta)

lemma stepsCounted_frame [simp]:
  "levelThresholds (stepsCounted n m) = levelThresholds m"
  "localStorage (stepsCounted n m) = localStorage m"
  "xp (data (stepsCounted n m)) = xp (data m)"
  "badges (data (stepsCounted n m)) = badges (data m)"
  "levelConsistent (stepsCounted n m) = levelConsistent m"
  by (simp_all add: stepsCounted_def levelConsistent_def)

lemma logSteps_levelConsistent:
  "levelConsistent m \<or> xp (data (snd (logSteps steps m))) \<noteq> xp (data m)
   \<Longrightarrow> levelConsistent (snd (logSteps steps m))"
  by (auto simp: logSteps_snd split: if_splits)

lemma logSteps_badgesExtended: "badgesExtended m (snd (logSteps steps m))"
proof -
  have "badgesExtended m (stepsCounted steps m)" by (simp add: badgesExtended_refl)
  moreover have "badgesExtended (stepsCounted steps m) (snd (logSteps steps m))"
    by (simp add: logSteps_snd awardXP_badgesExtended badgesExtended_refl)
  ultimately show ?thesis by (rule badgesExtended_trans)
qed

lemma completeChallenge_eq:
  "completeChallenge c m = awardXP (chXp c) (''challenge_'' @ chType c) (challengeClosed c m)"
  by (simp add: completeChallenge_def challengeClosed_def Let_def)

lemma challengeClosed_frame [simp]:
  "levelThresholds (challengeClosed c m) = levelThresholds m"
  "localStorage (challengeClosed c m) = localStorage m"
  "xp (data (challengeClosed c m)) = xp (data m)"
  "badges (data (challengeClosed c m)) = badges (data m)"
  by (simp_all add: challengeClosed_def)

lemma completeChallenge_levelConsistent: "levelConsistent (snd (completeChallenge c m))"
  by (simp add: completeChallenge_eq)

lemma completeChallenge_badgesExtended: "badgesExtended m (snd (completeChallenge c m))"
proof -
  have "badgesExtended m (challengeClosed c m)" by (simp add: badgesExtended_refl)
  moreover have "badgesExtended (challengeClosed c m) (snd (completeChallenge c m))"
    by (simp add: completeChallenge_eq awardXP_badgesExtended)
  ultimately show ?thesis by (rule badgesExtended_trans)
qed

lemma joinChallenge_badgesExtended: "badgesExtended m (snd (joinChallenge c now m))"
  by (simp add: joinChallenge_def Let_def badgesExtended_refl)

section \<open>Claims on streaks, levels and badges\<close>

text \<open>
  Claim C6. \<open>updateStreak\<close> counts consecutive days: when the last activity was on the
  previous calendar day the current streak grows by one; when it was today nothing changes
  and the call reports \<open>streakUpdated = false\<close>; when it was before yesterday, or there
  is none, the current streak restarts at 1.
\<close>

theorem updateStreak_consecutive_days:
  "(\<forall>d. lastActivity (streak (data m)) = Some d \<and> toDateString d = toDateString now - 1 \<longrightarrow>
      current (streak (data (snd (updateStreak now m)))) = current (streak (data m)) + 1
      \<and> streakUpdated (fst (updateStreak now m))
      \<and> resultCurrent (fst (updateStreak now m)) = current (streak (data m)) + 1)
   \<and> (\<forall>d. lastActivity (streak (data m)) = Some d \<and> toDateString d = toDateString now \<longrightarrow>
      snd (updateStreak now m) = m
      \<and> \<not> streakUpdated (fst (updateStreak now m))
      \<and> resultCurrent (fst (updateStreak now m)) = current (streak (data m)))
   \<and> (lastActivity (streak (data m)) = None
        \<or> (\<exists>d. lastActivity (streak (data m)) = Some d \<and> toDateString d < toDateString now - 1) \<longrightarrow>
      current (streak (data (snd (updateStreak now m)))) = 1
      \<and> streakUpdated (fst (updateStreak now m))
      \<and> resultCurrent (fst (updateStreak now m)) = 1)"
proof (intro conjI allI impI)
  fix d
  assume a: "lastActivity (streak (data m)) = Some d \<and> toDateString d = toDateString now - 1"
  then have n: "map_option toDateString (lastActivity (streak (data m))) \<noteq> Some (toDateString now)"
    by simp
  have c: "current (streak (data (snd (updateStreak now m)))) = current (streak (data m)) + 1"
    using a by (simp add: updateStreak_streak [OF n] advanceStreak_def Let_def)
  then show "current (streak (data (snd (updateStreak now m)))) = current (streak (data m)) + 1" .
  show "streakUpdated (fst (updateStreak now m))" by (rule updateStreak_other_day(2) [OF n])
  show "resultCurrent (fst (updateStreak now m)) = current (streak (data m)) + 1"
    using c by (simp add: updateStreak_other_day(3) [OF n])
next
  fix d
  assume a: "lastActivity (streak (data m)) = Some d \<and> toDateString d = toDateString now"
  then have s: "map_option toDateString (lastActivity (streak (data m))) = Some (toDateString now)"
    by simp
  show "snd (updateStreak now m) = m" by (simp add: updateStreak_same_day [OF s])
  show "\<not> streakUpdated (fst (updateStreak now m))" by (simp add: updateStreak_same_day [OF s])
  show "resultCurrent (fst (updateStreak now m)) = current (streak (data m))"
    by (simp add: updateStreak_same_day [OF s])
next
  assume a: "lastActivity (streak (data m)) = None
        \<or> (\<exists>d. lastActivity (streak (data m)) = Some d \<and> toDateString d < toDateString now - 1)"
  then have n: "map_option toDateString (lastActivity (streak (data m))) \<noteq> Some (toDateString now)"
    by auto
  have c: "current (streak (data (snd (updateStreak now m)))) = 1"
    using a by (auto simp: updateStreak_streak [OF n] advanceStreak_def Let_def)
  then show "current (streak (data (snd (updateStreak now m)))) = 1" .
  show "streakUpdated (fst (updateStreak now m))" by (rule updateStreak_other_day(2) [OF n])
  show "resultCurrent (fst (updateStreak now m)) = 1"
    using c by (simp add: updateStreak_other_day(3) [OF n])
qed

theorem updateStreak_consecutive_days_witness:
  "current (streak (data (snd (updateStreak sampleNow (sampleManager (Some (sampleEarlier 1))))))) = 4
   \<and> streakUpdated (fst (updateStreak sampleNow (sampleManager (Some (sampleEarlier 1)))))
   \<and> resultCurrent (fst (updateStreak sampleNow (sampleManager (Some (sampleEarlier 1))))) = 4
   \<and> snd (updateStreak sampleNow (sampleManager (Some sampleNow))) = sampleManager (Some sampleNow)
   \<and> \<not> streakUpdated (fst (updateStreak sampleNow (sampleManager (Some sampleNow))))
   \<and> resultCurrent (fst (updateStreak sampleNow (sampleManager (Some sampleNow)))) = 3
   \<and> current (streak (data (snd (updateStreak sampleNow (sampleManager None))))) = 1
   \<and> resultCurrent (fst (updateStreak sampleNow (sampleManager (Some (sampleEarlier 9))))) = 1"
  using updateStreak_consecutive_days [of "sampleManager (Some (sampleEarlier 1))" sampleNow]
    updateStreak_consecutive_days [of "sampleManager (Some sampleNow)" sampleNow]
    updateStreak_consecutive_days [of "sampleManager None" sampleNow]
    updateStreak_consecutive_days [of "sampleManager (Some (sampleEarlier 9))" sampleNow]
  by (simp add: sampleManager_def getDefaultData_def sampleEarlier_def sampleNow_def
      toDateString_def)

text \<open>
  Claim C8. The level stored in the data is the level of the stored XP after every
  operation that adds XP. \<open>awardXP\<close>, \<open>logWorkout\<close> and \<open>completeChallenge\<close> always add
  XP and always leave the two in agreement; \<open>checkBadges\<close>, \<open>logSteps\<close> and
  \<open>updateStreak\<close> add XP on some calls only, and leave them in agreement whenever they
  changed the XP or found them in agreement.
\<close>

theorem level_follows_xp:
  "levelConsistent (snd (awardXP amount source m))
   \<and> levelConsistent (snd (logWorkout w now m))
   \<and> levelConsistent (snd (completeChallenge c m))
   \<and> (levelConsistent m \<or> xp (data (snd (checkBadges m))) \<noteq> xp (data m)
        \<longrightarrow> levelConsistent (snd (checkBadges m)))
   \<and> (levelConsistent m \<or> xp (data (snd (logSteps steps m))) \<noteq> xp (data m)
        \<longrightarrow> levelConsistent (snd (logSteps steps m)))
   \<and> (levelConsistent m \<or> xp (data (snd (updateStreak now m))) \<noteq> xp (data m)
        \<longrightarrow> levelConsistent (snd (updateStreak now m)))"
  using checkBadges_levelConsistent [of m] logSteps_levelConsistent [of m steps]
    updateStreak_levelConsistent [of m now]
  by (simp add: logWorkout_levelConsistent completeChallenge_levelConsistent)

theorem level_follows_xp_witness:
  "levelConsistent (sampleManager None)
   \<and> levelConsistent (snd (checkBadges (sampleManager None)))
   \<and> levelConsistent (snd (logSteps 250 (sampleManager None)))
   \<and> levelConsistent (snd (updateStreak sampleNow (sampleManager None)))
   \<and> levelConsistent (snd (awardXP 500 ''manual'' (sampleManager None)))"
proof -
  have c: "levelConsistent (sampleManager None)"
    by (simp add: levelConsistent_def sampleManager_def calculateLevel_def numeral_eq_Suc)
  show ?thesis
    using level_follows_xp [of 500 "''manual''" "sampleManager None" _ sampleNow _ 250] c
    by simp
qed

text \<open>
  Claim C9. \<open>checkBadges\<close> appends the ids of the badges it awards to the earned list;
  the awarded badges come from the badge table, their ids are pairwise different and none
  was in the list before, and the XP grows by exactly the rewards of these badges, so a
  reward is granted once. Every operation but \<open>reset\<close> extends the earned list: the old
  list is a prefix of the new one, and a list without duplicates stays so.
\<close>

theorem badges_unique_and_monotone:
  "badges (data (snd (checkBadges m))) = badges (data m) @ map badgeId (fst (checkBadges m))
   \<and> set (fst (checkBadges m)) \<subseteq> set getBadgeDefinitions
   \<and> distinct (map badgeId (fst (checkBadges m)))
   \<and> set (map badgeId (fst (checkBadges m))) \<inter> set (badges (data m)) = {}
   \<and> xp (data (snd (checkBadges m))) = xp (data m) + sum_list (map badgeXp (fst (checkBadges m)))
   \<and> badgesExtended m (snd (checkBadges m))
   \<and> badgesExtended m (snd (awardXP amount source m))
   \<and> badgesExtended m (snd (updateStreak now m))
   \<and> badgesExtended m (snd (logWorkout w now m))
   \<and> badgesExtended m (snd (logSteps steps m))
   \<and> badgesExtended m (snd (completeChallenge c m))
   \<and> badgesExtended m (snd (joinChallenge c now m))
   \<and> badges (data (reset m)) = []"
  using checkBadges_loop_new_ids [of getBadgeDefinitions m]
    checkBadges_loop_subset [of getBadgeDefinitions m]
  by (simp add: checkBadges_snd checkBadges_loop_xp checkBadges_loop_badges
      checkBadges_badgesExtended awardXP_badgesExtended updateStreak_badgesExtended
      logWorkout_badgesExtended logSteps_badgesExtended completeChallenge_badgesExtended
      joinChallenge_badgesExtended reset_def getDefaultData_def)

theorem badges_unique_and_monotone_witness:
  "distinct (badges (data (sampleManager None)))
   \<and> distinct (badges (data (snd (checkBadges (sampleManager None)))))
   \<and> distinct (badges (data (snd (awardXP 500 ''manual'' (sampleManager None)))))
   \<and> distinct (badges (data (snd (logWorkout \<lparr>duration = Some 45, calories = Some 300,
          workoutType = Some ''Leg Day''\<rparr> sampleNow (sampleManager None)))))
   \<and> prefix [''first_workout'']
        (badges (data (snd (awardXP 500 ''manual'' (sampleManager None)))))"
proof -
  have c: "distinct (badges (data (sampleManager None)))"
    "badges (data (sampleManager None)) = [''first_workout'']"
    by (simp_all add: sampleManager_def)
  show ?thesis
    using badges_unique_and_monotone [of "sampleManager None" 500 "''manual''" sampleNow
        "\<lparr>duration = Some 45, calories = Some 300, workoutType = Some ''Leg Day''\<rparr>"] c
    by (simp add: badgesExtended_def)
qed

section \<open>The weekly plan\<close>

lemma forEach_js_total:
  "\<forall>r\<in>set rs. \<exists>y. r = Inr y \<Longrightarrow> \<exists>ys. forEach_js rs = Inr ys \<and> rs = map Inr ys"
proof (induction rs)
  case Nil
  then show ?case by simp
next
  case (Cons r rs)
  then obtain y where y: "r = Inr y" by auto
  from Cons obtain ys where a: "forEach_js rs = Inr ys" and b: "rs = map Inr ys" by auto
  have "forEach_js (r # rs) = Inr (y # ys)" by (simp add: y a)
  moreover have "r # rs = map Inr (y # ys)" by (simp add: y b)
  ultimately have "forEach_js (r # rs) = Inr (y # ys) \<and> r # rs = map Inr (y # ys)"
    by (rule conjI)
  then show ?case by (rule exI)
qed


lemma getWorkoutSplit_InheritedMember:
  "getWorkoutSplit n g = InheritedMember \<longleftrightarrow> n \<in> {3, 4, 5, 6} \<and> g \<in> set objectPrototypeKeys"
  by (auto simp: getWorkoutSplit_def splits_def getProperty_def orDefault_def objectPrototypeKeys_def
      split: option.splits if_splits property.splits)



lemma getWorkoutSplit_entries:
  "getWorkoutSplit n g = Value s \<Longrightarrow> length s = 7 \<and> (\<forall>w\<in>set s. w \<notin> set objectPrototypeKeys)"
  by (auto simp: getWorkoutSplit_def splits_def getProperty_def orDefault_def fourDayGeneral_def
      objectPrototypeKeys_def split: option.splits if_splits property.splits)

lemma groupMap_values:
  "list_all (\<lambda>(w, gs). list_all (\<lambda>g. g \<in> set (''full'' # map fst exerciseDatabase)) gs
       \<and> length (filter (\<lambda>g. g = ''legs'') gs) \<le> 1 \<and> gs \<noteq> []) groupMap"
  by code_simp

lemma group_names_own:
  "list_all (\<lambda>g. g \<notin> set objectPrototypeKeys) (''full'' # map fst exerciseDatabase)"
  by code_simp

lemma getMuscleGroups_Value:
  assumes "getMuscleGroups w = Value gs"
  shows "set gs \<subseteq> insert ''full'' (set (map fst exerciseDatabase))
         \<and> length (filter (\<lambda>g. g = ''legs'') gs) \<le> 1 \<and> gs \<noteq> []"
proof (cases "map_of groupMap w")
  case None
  with assms have "gs = [''full'']"
    by (simp add: getMuscleGroups_def getProperty_def orDefault_def split: if_splits)
  then show ?thesis by simp
next
  case (Some v)
  with assms have "gs = v" by (simp add: getMuscleGroups_def getProperty_def orDefault_def)
  moreover from Some have "(w, v) \<in> set groupMap" by (rule map_of_SomeD)
  ultimately have "(w, gs) \<in> set groupMap" by simp
  then show ?thesis using groupMap_values by (auto simp: list_all_iff)
qed

lemma getMuscleGroups_Inr:
  assumes "w \<notin> set objectPrototypeKeys"
  shows "\<exists>gs. getMuscleGroups w = Value gs"
  using assms
  by (simp add: getMuscleGroups_def getProperty_def orDefault_def split: option.splits)




lemma availableExercises_Inr:
  assumes "g \<in> insert ''full'' (set (map fst exerciseDatabase))"
  shows "\<exists>av. availableExercises g lvl equip = Inr av"
proof -
  from assms have "g \<notin> set objectPrototypeKeys"
    using group_names_own by (auto simp: list_all_iff)
  then show ?thesis
    by (simp add: availableExercises_def getProperty_def split: option.splits)
qed


lemma groupExercises_Inr:
  assumes "g \<in> insert ''full'' (set (map fst exerciseDatabase))"
  shows "\<exists>ys. groupExercises shuffle lvl equip epg (i, g) = Inr ys"
proof -
  from assms obtain av where "availableExercises g lvl equip = Inr av"
    using availableExercises_Inr by blast
  then show ?thesis by (simp add: groupExercises_def)
qed






lemma selectExercises_total:
  assumes "w \<notin> set objectPrototypeKeys"
  shows "\<exists>exs. selectExercises shuffle w lvl equip dur = Inr exs"
proof -
  from assms obtain gs where gs: "getMuscleGroups w = Value gs"
    using getMuscleGroups_Inr by blast
  then have sub: "set gs \<subseteq> insert ''full'' (set (map fst exerciseDatabase))"
    using getMuscleGroups_Value by blast
  let ?rs = "map (groupExercises shuffle lvl equip ((dur * 2) div 45)) (enumerate 0 gs)"
  have "\<forall>r\<in>set ?rs. \<exists>y. r = Inr y"
  proof
    fix r assume "r \<in> set ?rs"
    then obtain i g where ig: "(i, g) \<in> set (enumerate 0 gs)"
      and r: "r = groupExercises shuffle lvl equip ((dur * 2) div 45) (i, g)"
      by auto
    from ig have "g \<in> set gs" by (auto simp: in_set_enumerate_eq)
    with sub have "g \<in> insert ''full'' (set (map fst exerciseDatabase))" by (rule subsetD)
    then show "\<exists>y. r = Inr y" unfolding r by (rule groupExercises_Inr)
  qed
  then obtain sel where "forEach_js ?rs = Inr sel"
    using forEach_js_total by blast
  then show ?thesis by (simp add: selectExercises_def gs Let_def)
qed




lemma planDay_total:
  assumes "w \<notin> set objectPrototypeKeys"
  shows "\<exists>d. planDay shuffle lvl equip dur (i, w) = Inr d"
proof (cases "w = ''rest''")
  case True
  then show ?thesis by (simp add: planDay_def)
next
  case False
  from assms obtain exs where "selectExercises (shuffle i) w lvl equip dur = Inr exs"
    using selectExercises_total by blast
  with False show ?thesis by (simp add: planDay_def)
qed




lemma generatePlan_Value:
  assumes s: "getWorkoutSplit (profileDays p) (profileGoal p) = Value s"
  shows "\<exists>ds. map (planDay shuffle (profileLevel p) (profileEquip p) (profileMinutes p)) (enumerate 0 s)
                 = map Inr ds
             \<and> generatePlan shuffle p
                 = Inr \<lparr>weekNumber = 1, planGoal = profileGoal p, planFitnessLevel = profileLevel p,
                        planDays = ds\<rparr>"
proof -
  let ?rs = "map (planDay shuffle (profileLevel p) (profileEquip p) (profileMinutes p)) (enumerate 0 s)"
  from s have own: "\<forall>w\<in>set s. w \<notin> set objectPrototypeKeys"
    using getWorkoutSplit_entries by blast
  have "\<forall>r\<in>set ?rs. \<exists>y. r = Inr y"
  proof
    fix r assume "r \<in> set ?rs"
    then obtain i w where iw: "(i, w) \<in> set (enumerate 0 s)"
      and r: "r = planDay shuffle (profileLevel p) (profileEquip p) (profileMinutes p) (i, w)"
      by auto
    from iw have "w \<in> set s" by (auto simp: in_set_enumerate_eq)
    with own have "w \<notin> set objectPrototypeKeys" by (rule bspec)
    then show "\<exists>y. r = Inr y" unfolding r by (rule planDay_total)
  qed
  then obtain ds where f: "forEach_js ?rs = Inr ds" and m: "?rs = map Inr ds"
    using forEach_js_total by blast
  from f s have "generatePlan shuffle p
                 = Inr \<lparr>weekNumber = 1, planGoal = profileGoal p, planFitnessLevel = profileLevel p,
                        planDays = ds\<rparr>"
    by (simp add: generatePlan_def)
  with m show ?thesis by blast
qed

text \<open>
  \<open>generatePlan\<close> throws exactly when \<open>splits[daysPerWeek]\<close> exists and the goal names
  an inherited member.
\<close>

lemma generatePlan_TypeError:
  "generatePlan shuffle p = Inl TypeError
   \<longleftrightarrow> profileDays p \<in> {3, 4, 5, 6} \<and> profileGoal p \<in> set objectPrototypeKeys"
proof (cases "getWorkoutSplit (profileDays p) (profileGoal p)")
  case InheritedMember
  then have "generatePlan shuffle p = Inl TypeError" by (simp add: generatePlan_def)
  with InheritedMember show ?thesis by (simp add: getWorkoutSplit_InheritedMember)
next
  case (Value s)
  then have "\<not> (profileDays p \<in> {3, 4, 5, 6} \<and> profileGoal p \<in> set objectPrototypeKeys)"
    using getWorkoutSplit_InheritedMember [of "profileDays p" "profileGoal p"] by simp
  moreover from Value obtain x where "generatePlan shuffle p = Inr x"
    using generatePlan_Value by blast
  ultimately show ?thesis by simp
qed


text \<open>
  The durations from -67 to -1 are those with \<open>exercisesPerGroup\<close> from -3 to -1, where
  \<open>slice(0, exercisesPerGroup)\<close> drops fewer exercises from the end of each pool than
  the last \<open>slice\<close> drops from the end of the selection: for each of them the advanced
  3-day general profile gets a day of more than 8 exercises. From -68 down each pool loses
  at least four exercises and the selection four for every muscle group, which leaves at
  most three.
\<close>

lemma short_negative_durations:
  "list_all (\<lambda>d. \<not> planShape (generatePlan keepOrder (shortNegativeProfile d))) [- 67 ..  - 1]"
  by code_simp

lemma short_negative_duration_fails:
  assumes "- 67 \<le> d" and "d \<le> - 1"
  shows "\<not> planShape (generatePlan keepOrder (shortNegativeProfile d))"
  using assms short_negative_durations by (simp add: list_all_iff)




section \<open>The fetch listener and its strategies\<close>

lemma includes_js_iff: "includes_js s e \<longleftrightarrow> (\<exists>p t. s = p @ e @ t)"
  by (simp add: includes_js_def sublist_def)

lemma endsWith_iff: "endsWith s e \<longleftrightarrow> (\<exists>p. s = p @ e)"
  by (simp add: endsWith_def suffix_def)

lemma startsWith_iff: "startsWith s p \<longleftrightarrow> (\<exists>t. s = p @ t)"
  by (simp add: startsWith_def prefix_def)

text \<open>
  Claim C3. A request that is not a GET, or whose URL's protocol does not start with
  \<open>http\<close>, is not responded to. For every other request the listener picks one
  strategy, by the first of these that applies: network-first (API cache) when the URL
  text contains an API endpoint; cache-first (static cache) when the path ends in a static
  extension or is in the precache list; the navigation handler when the mode is
  \<open>navigate\<close>; stale-while-revalidate (dynamic cache) otherwise. The fetch event runs the
  function of that strategy.
\<close>

theorem fetchListener_strategy:
  "(isApiRequest u \<longleftrightarrow> (\<exists>e\<in>set API_ENDPOINTS. \<exists>p t. href u = p @ e @ t))
   \<and> (isStaticAsset u \<longleftrightarrow>
        (\<exists>x\<in>set staticExtensions. \<exists>p. pathname u = p @ x) \<or> pathname u \<in> set STATIC_ASSETS)
   \<and> (startsWith (protocol u) ''http'' \<longleftrightarrow> (\<exists>t. protocol u = ''http'' @ t))
   \<and> (requestMethod req \<noteq> ''GET'' \<or> \<not> startsWith (protocol (requestUrl req)) ''http''
        \<longrightarrow> fetchListener req = None \<and> fetchEvent req outcome w = None)
   \<and> (requestMethod req = ''GET'' \<and> startsWith (protocol (requestUrl req)) ''http'' \<longrightarrow>
        (isApiRequest (requestUrl req) \<longrightarrow>
           fetchListener req = Some (NetworkFirstWithCache API_CACHE)
           \<and> fetchEvent req outcome w = Some (networkFirstWithCache req API_CACHE outcome w))
        \<and> (\<not> isApiRequest (requestUrl req) \<and> isStaticAsset (requestUrl req) \<longrightarrow>
           fetchListener req = Some (CacheFirstWithNetwork CACHE_NAME)
           \<and> fetchEvent req outcome w = Some (cacheFirstWithNetwork req CACHE_NAME outcome w))
        \<and> (\<not> isApiRequest (requestUrl req) \<and> \<not> isStaticAsset (requestUrl req)
            \<and> mode req = ''navigate'' \<longrightarrow>
           fetchListener req = Some NavigationHandler
           \<and> fetchEvent req outcome w = Some (navigationHandler req outcome w))
        \<and> (\<not> isApiRequest (requestUrl req) \<and> \<not> isStaticAsset (requestUrl req)
            \<and> mode req \<noteq> ''navigate'' \<longrightarrow>
           fetchListener req = Some (StaleWhileRevalidate DYNAMIC_CACHE)
           \<and> fetchEvent req outcome w = Some (staleWhileRevalidate req DYNAMIC_CACHE outcome w)))"
proof (intro conjI)
  show "isApiRequest u \<longleftrightarrow> (\<exists>e\<in>set API_ENDPOINTS. \<exists>p t. href u = p @ e @ t)"
    by (simp add: isApiRequest_def list_ex_iff includes_js_iff)
  show "isStaticAsset u \<longleftrightarrow>
        (\<exists>x\<in>set staticExtensions. \<exists>p. pathname u = p @ x) \<or> pathname u \<in> set STATIC_ASSETS"
    by (simp add: isStaticAsset_def list_ex_iff endsWith_iff)
  show "startsWith (protocol u) ''http'' \<longleftrightarrow> (\<exists>t. protocol u = ''http'' @ t)"
    by (rule startsWith_iff)
  show "requestMethod req \<noteq> ''GET'' \<or> \<not> startsWith (protocol (requestUrl req)) ''http''
        \<longrightarrow> fetchListener req = None \<and> fetchEvent req outcome w = None"
    by (auto simp: fetchEvent_def fetchListener_def Let_def)
  show "requestMethod req = ''GET'' \<and> startsWith (protocol (requestUrl req)) ''http'' \<longrightarrow>
        (isApiRequest (requestUrl req) \<longrightarrow>
           fetchListener req = Some (NetworkFirstWithCache API_CACHE)
           \<and> fetchEvent req outcome w = Some (networkFirstWithCache req API_CACHE outcome w))
        \<and> (\<not> isApiRequest (requestUrl req) \<and> isStaticAsset (requestUrl req) \<longrightarrow>
           fetchListener req = Some (CacheFirstWithNetwork CACHE_NAME)
           \<and> fetchEvent req outcome w = Some (cacheFirstWithNetwork req CACHE_NAME outcome w))
        \<and> (\<not> isApiRequest (requestUrl req) \<and> \<not> isStaticAsset (requestUrl req)
            \<and> mode req = ''navigate'' \<longrightarrow>
           fetchListener req = Some NavigationHandler
           \<and> fetchEvent req outcome w = Some (navigationHandler req outcome w))
        \<and> (\<not> isApiRequest (requestUrl req) \<and> \<not> isStaticAsset (requestUrl req)
            \<and> mode req \<noteq> ''navigate'' \<longrightarrow>
           fetchListener req = Some (StaleWhileRevalidate DYNAMIC_CACHE)
           \<and> fetchEvent req outcome w = Some (staleWhileRevalidate req DYNAMIC_CACHE outcome w))"
    by (simp add: fetchEvent_def fetchListener_def runStrategy_def Let_def)
qed

lemma sample_classes:
  "isApiRequest (requestUrl (sampleRequest ''/api/profile'' ''cors''))"
  "\<not> isApiRequest (requestUrl (sampleRequest ''/css/global.css'' ''no-cors''))"
  "isStaticAsset (requestUrl (sampleRequest ''/css/global.css'' ''no-cors''))"
  "\<not> isApiRequest (requestUrl (sampleRequest ''/help'' ''navigate''))"
  "\<not> isStaticAsset (requestUrl (sampleRequest ''/help'' ''navigate''))"
  "\<not> isApiRequest (requestUrl (sampleRequest ''/feed'' ''cors''))"
  "\<not> isStaticAsset (requestUrl (sampleRequest ''/feed'' ''cors''))"
  by code_simp+

theorem fetchListener_strategy_witness:
  "fetchListener (sampleRequest ''/api/profile'' ''cors'') = Some (NetworkFirstWithCache API_CACHE)
   \<and> fetchListener (sampleRequest ''/css/global.css'' ''no-cors'') = Some (CacheFirstWithNetwork CACHE_NAME)
   \<and> fetchListener (sampleRequest ''/help'' ''navigate'') = Some NavigationHandler
   \<and> fetchListener (sampleRequest ''/feed'' ''cors'') = Some (StaleWhileRevalidate DYNAMIC_CACHE)
   \<and> fetchListener ((sampleRequest ''/api/profile'' ''cors'')\<lparr>requestMethod := ''POST''\<rparr>) = None"
proof -
  have g: "requestMethod (sampleRequest path m) = ''GET''
           \<and> startsWith (protocol (requestUrl (sampleRequest path m))) ''http''" for path m
    by (simp add: sampleRequest_def startsWith_def)
  have p: "requestMethod ((sampleRequest ''/api/profile'' ''cors'')\<lparr>requestMethod := ''POST''\<rparr>) \<noteq> ''GET''"
    by simp
  have m: "mode (sampleRequest ''/help'' ''navigate'') = ''navigate''"
    "mode (sampleRequest ''/feed'' ''cors'') \<noteq> ''navigate''"
    by (simp_all add: sampleRequest_def)
  have "fetchListener (sampleRequest ''/api/profile'' ''cors'') = Some (NetworkFirstWithCache API_CACHE)"
    using fetchListener_strategy [of _ "sampleRequest ''/api/profile'' ''cors''"] g sample_classes(1)
    by blast
  moreover have "fetchListener (sampleRequest ''/css/global.css'' ''no-cors'') = Some (CacheFirstWithNetwork CACHE_NAME)"
    using fetchListener_strategy [of _ "sampleRequest ''/css/global.css'' ''no-cors''"] g sample_classes(2,3)
    by blast
  moreover have "fetchListener (sampleRequest ''/help'' ''navigate'') = Some NavigationHandler"
    using fetchListener_strategy [of _ "sampleRequest ''/help'' ''navigate''"] g sample_classes(4,5) m(1)
    by blast
  moreover have "fetchListener (sampleRequest ''/feed'' ''cors'') = Some (StaleWhileRevalidate DYNAMIC_CACHE)"
    using fetchListener_strategy [of _ "sampleRequest ''/feed'' ''cors''"] g sample_classes(6,7) m(2)
    by blast
  moreover have "fetchListener ((sampleRequest ''/api/profile'' ''cors'')\<lparr>requestMethod := ''POST''\<rparr>) = None"
    using fetchListener_strategy [of _ "(sampleRequest ''/api/profile'' ''cors'')\<lparr>requestMethod := ''POST''\<rparr>"] p
    by blast
  ultimately show ?thesis by simp
qed

text \<open>
  Claim C2, amended. When the fetch of an intercepted GET request fails: the network-first
  strategy of API requests answers with the response cached for the request, or with a
  new 503 JSON response when there is none; the cache-first strategy and the navigation
  handler answer with the response cached for the request, or with what
  \<open>caches.match('/offline.html')\<close> finds when there is none, which is the offline page once
  it is cached; stale-while-revalidate answers with the response its dynamic cache holds
  for the request, when it holds one. No cache content changes.
\<close>

theorem failed_fetch_fallback:
  assumes "requestMethod req = ''GET''" and "startsWith (protocol (requestUrl req)) ''http''"
  shows
    "(isApiRequest (requestUrl req) \<longrightarrow>
        fetchEvent req Rejected w
        = Some (case caches_match w (href (requestUrl req)) of
                  Some r \<Rightarrow> Some r | None \<Rightarrow> Some offlineJson, w))
     \<and> (\<not> isApiRequest (requestUrl req)
          \<and> (isStaticAsset (requestUrl req) \<or> mode req = ''navigate'') \<longrightarrow>
        fetchEvent req Rejected w
        = Some (case caches_match w (href (requestUrl req)) of
                  Some r \<Rightarrow> Some r | None \<Rightarrow> caches_match w (offlineUrl w), w)
        \<and> (caches_match w (offlineUrl w) \<noteq> None \<longrightarrow>
             offlineFallback w req (fst (the (fetchEvent req Rejected w)))))
     \<and> (\<not> isApiRequest (requestUrl req) \<and> \<not> isStaticAsset (requestUrl req)
          \<and> mode req \<noteq> ''navigate'' \<longrightarrow>
        (\<forall>r. cache_match (caches_open DYNAMIC_CACHE w) DYNAMIC_CACHE (href (requestUrl req)) = Some r \<longrightarrow>
           fetchEvent req Rejected w = Some (Some r, caches_open DYNAMIC_CACHE w)))"
  using assms
  by (auto simp: fetchEvent_def fetchListener_def runStrategy_def Let_def
      networkFirstWithCache_def cacheFirstWithNetwork_def navigationHandler_def
      staleWhileRevalidate_def offlineFallback_def split: option.splits)

lemma sampleWorker_lookups:
  "caches_match sampleWorker (offlineUrl sampleWorker) = Some offlinePage"
  "caches_match sampleWorker (href (requestUrl (sampleRequest ''/api/profile'' ''cors''))) = None"
  "caches_match sampleWorker (href (requestUrl (sampleRequest ''/help'' ''navigate''))) = None"
  by (simp_all add: sampleWorker_def caches_match_def offlineUrl_def sampleRequest_def)

theorem failed_fetch_fallback_witness:
  "map_option fst (fetchEvent (sampleRequest ''/api/profile'' ''cors'') Rejected sampleWorker)
     = Some (Some offlineJson)
   \<and> map_option fst (fetchEvent (sampleRequest ''/help'' ''navigate'') Rejected sampleWorker)
     = Some (Some offlinePage)
   \<and> offlineFallback sampleWorker (sampleRequest ''/help'' ''navigate'')
        (fst (the (fetchEvent (sampleRequest ''/help'' ''navigate'') Rejected sampleWorker)))"
proof -
  have g: "requestMethod (sampleRequest path m) = ''GET''" 
    "startsWith (protocol (requestUrl (sampleRequest path m))) ''http''" for path m
    by (simp_all add: sampleRequest_def startsWith_def)
  have m: "mode (sampleRequest ''/help'' ''navigate'') = ''navigate''"
    by (simp add: sampleRequest_def)
  have a: "isApiRequest (requestUrl (sampleRequest ''/api/profile'' ''cors''))"
    "\<not> isApiRequest (requestUrl (sampleRequest ''/help'' ''navigate''))"
    by code_simp+
  show ?thesis
    using failed_fetch_fallback [OF g, of "''/api/profile''" "''cors''" sampleWorker]
      failed_fetch_fallback [OF g, of "''/help''" "''navigate''" sampleWorker]
      a m sampleWorker_lookups
    by auto
qed

theorem failed_fetch_fallback_counterexample:
  "map_option fst (fetchEvent (sampleRequest ''/api/profile'' ''cors'') Rejected sampleWorker)
     = Some (Some offlineJson)
   \<and> \<not> offlineFallback sampleWorker (sampleRequest ''/api/profile'' ''cors'') (Some offlineJson)"
proof -
  have a: "isApiRequest (requestUrl (sampleRequest ''/api/profile'' ''cors''))"
    by code_simp
  have g: "requestMethod (sampleRequest ''/api/profile'' ''cors'') = ''GET''" 
    "startsWith (protocol (requestUrl (sampleRequest ''/api/profile'' ''cors''))) ''http''"
    by (simp_all add: sampleRequest_def startsWith_def)
  have "fetchListener (sampleRequest ''/api/profile'' ''cors'') = Some (NetworkFirstWithCache API_CACHE)"
    using a g by (simp add: fetchListener_def Let_def)
  then have "map_option fst (fetchEvent (sampleRequest ''/api/profile'' ''cors'') Rejected sampleWorker)
     = Some (Some offlineJson)"
    by (simp add: fetchEvent_def runStrategy_def networkFirstWithCache_def sampleWorker_lookups)
  moreover have "\<not> offlineFallback sampleWorker (sampleRequest ''/api/profile'' ''cors'') (Some offlineJson)"
    by (simp add: offlineFallback_def sampleWorker_lookups offlineJson_def offlinePage_def)
  ultimately show ?thesis by simp
qed

text \<open>
  Stale-while-revalidate without a cached response resolves with \<open>null\<close> after a failed
  fetch: the lookup of \<open>/offline.html\<close> written as its third operand is not reached.
\<close>

lemma staleWhileRevalidate_failed_uncached:
  "cache_match (caches_open cacheName w) cacheName (href (requestUrl req)) = None
   \<Longrightarrow> fst (staleWhileRevalidate req cacheName Rejected w) = None"
  by (simp add: staleWhileRevalidate_def Let_def)

section \<open>Background sync\<close>

text \<open>Whether the loop deletes an item: it is of the action type, the backend answers ok, the delete succeeds.\<close>

lemma syncLoop_result:
  "syncLoop db backend a e queue (store, posted)
   = (filter (\<lambda>i. \<not> (\<exists>q\<in>set queue. itemId q = itemId i \<and> syncDeletes db backend a e q)) store,
      posted @ filter (\<lambda>q. action_type q = a) queue)"
proof (induction queue arbitrary: store posted)
  case Nil
  show ?case by simp
next
  case (Cons item queue)
  show ?case
  proof (cases "syncDeletes db backend a e item")
    case True
    then have "syncLoop db backend a e (item # queue) (store, posted)
               = syncLoop db backend a e queue (deleteFromStore store (itemId item), posted @ [item])"
      by (auto simp: syncDeletes_def split: fetch_outcome.splits)
    also have "\<dots> = (filter (\<lambda>i. \<not> (\<exists>q\<in>set queue. itemId q = itemId i \<and> syncDeletes db backend a e q))
                        (deleteFromStore store (itemId item)),
                      (posted @ [item]) @ filter (\<lambda>q. action_type q = a) queue)"
      by (rule Cons.IH)
    also have "\<dots> = (filter (\<lambda>i. \<not> (\<exists>q\<in>set (item # queue). itemId q = itemId i \<and> syncDeletes db backend a e q)) store,
                      posted @ filter (\<lambda>q. action_type q = a) (item # queue))"
      using True by (auto simp: deleteFromStore_def syncDeletes_def intro: filter_cong)
    finally show ?thesis .
  next
    case False
    then have "syncLoop db backend a e (item # queue) (store, posted)
               = syncLoop db backend a e queue
                   (store, if action_type item = a then posted @ [item] else posted)"
      by (auto simp: syncDeletes_def split: fetch_outcome.splits)
    also have "\<dots> = (filter (\<lambda>i. \<not> (\<exists>q\<in>set queue. itemId q = itemId i \<and> syncDeletes db backend a e q)) store,
                      (if action_type item = a then posted @ [item] else posted)
                        @ filter (\<lambda>q. action_type q = a) queue)"
      by (rule Cons.IH)
    also have "\<dots> = (filter (\<lambda>i. \<not> (\<exists>q\<in>set (item # queue). itemId q = itemId i \<and> syncDeletes db backend a e q)) store,
                      posted @ filter (\<lambda>q. action_type q = a) (item # queue))"
      using False by auto
    finally show ?thesis .
  qed
qed

lemma syncQueue_result:
  assumes "distinct (map itemId store)" and "\<not> openFails db" and "\<not> getAllFails db"
  shows "syncQueue a e db backend store
         = (filter (\<lambda>i. \<not> syncDeletes db backend a e i) store, filter (\<lambda>q. action_type q = a) store)"
proof -
  have "(\<exists>q\<in>set store. itemId q = itemId i \<and> syncDeletes db backend a e q)
        \<longleftrightarrow> syncDeletes db backend a e i" if "i \<in> set store" for i
    using that assms(1) by (auto simp: distinct_map dest: inj_onD)
  then have "filter (\<lambda>i. \<not> (\<exists>q\<in>set store. itemId q = itemId i \<and> syncDeletes db backend a e q)) store
             = filter (\<lambda>i. \<not> syncDeletes db backend a e i) store"
    by (auto intro: filter_cong)
  then show ?thesis using assms(2,3) by (simp add: syncQueue_def syncLoop_result)
qed


lemma syncEvent_syncQueue:
  "tagActionType tag = Some a \<Longrightarrow> syncEvent tag db backend store = syncQueue a (tagEndpoint tag) db backend store"
  by (auto simp: tagActionType_def syncEvent_def tagEndpoint_def syncChallengeCompletions_def
      syncActivityData_def split: if_splits)

text \<open>
  Claim C1, amended. In a sync event whose tag selects the item's action type, with the
  database opened and read, every such item of the queue is posted. It is deleted from the
  queue if and only if the backend answers with an ok status and the delete request on
  the store succeeds; the queue after the event is the old queue without the deleted
  items, so an item that stays is unchanged: no counter, no limit, no delay is recorded.
  An item that stays is posted again in every later sync event of that tag that opens and
  reads the database, whatever the backend answers then.
\<close>

theorem sync_deletes_only_on_success:
  assumes "distinct (map itemId store)" and "\<not> openFails db" and "\<not> getAllFails db"
    and "item \<in> set store" and "tagActionType tag = Some (action_type item)"
  shows
    "item \<in> set (snd (syncEvent tag db backend store))
     \<and> (item \<notin> set (fst (syncEvent tag db backend store)) \<longleftrightarrow>
          (\<exists>r. backend (tagEndpoint tag) item = Resolved r \<and> ok r) \<and> \<not> deleteFails db (itemId item))
     \<and> fst (syncEvent tag db backend store)
        = filter (\<lambda>i. \<not> syncDeletes db backend (action_type item) (tagEndpoint tag) i) store
     \<and> (item \<in> set (fst (syncEvent tag db backend store)) \<longrightarrow>
          (\<forall>db' backend'. \<not> openFails db' \<and> \<not> getAllFails db' \<longrightarrow>
             item \<in> set (snd (syncEvent tag db' backend' (fst (syncEvent tag db backend store))))))"
proof -
  let ?a = "action_type item" and ?e = "tagEndpoint tag"
  let ?store' = "filter (\<lambda>i. \<not> syncDeletes db backend ?a ?e i) store"
  have r: "syncEvent tag db backend store = (?store', filter (\<lambda>q. action_type q = ?a) store)"
    using assms by (simp add: syncEvent_syncQueue syncQueue_result)
  have d: "syncDeletes db backend ?a ?e item
           \<longleftrightarrow> (\<exists>r. backend ?e item = Resolved r \<and> ok r) \<and> \<not> deleteFails db (itemId item)"
    by (auto simp: syncDeletes_def split: fetch_outcome.splits)
  have dist: "distinct (map itemId ?store')"
    using assms(1) by (rule distinct_map_filter)
  have again: "item \<in> set (snd (syncEvent tag db' backend' ?store'))"
    if "item \<in> set ?store'" "\<not> openFails db'" "\<not> getAllFails db'" for db' backend'
    using that assms(5) dist by (simp add: syncEvent_syncQueue syncQueue_result)
  show ?thesis
    using assms(4) d again by (simp add: r)
qed

theorem sync_deletes_only_on_success_witness:
  "sampleQueue ! 2 \<in> set (snd (syncEvent ''sync-challenge-completion'' reliableDb okExceptThird sampleQueue))
   \<and> sampleQueue ! 2 \<in> set (fst (syncEvent ''sync-challenge-completion'' reliableDb okExceptThird sampleQueue))
   \<and> sampleQueue ! 0 \<notin> set (fst (syncEvent ''sync-challenge-completion'' reliableDb okExceptThird sampleQueue))
   \<and> sampleQueue ! 2 \<in> set (snd (syncEvent ''sync-challenge-completion'' reliableDb (respondsWith 500)
        (fst (syncEvent ''sync-challenge-completion'' reliableDb okExceptThird sampleQueue))))"
proof -
  have h: "distinct (map itemId sampleQueue)" "\<not> openFails reliableDb" "\<not> getAllFails reliableDb"
    "sampleQueue ! 2 \<in> set sampleQueue" "sampleQueue ! 0 \<in> set sampleQueue"
    "tagActionType ''sync-challenge-completion'' = Some (action_type (sampleQueue ! 2))"
    "tagActionType ''sync-challenge-completion'' = Some (action_type (sampleQueue ! 0))"
    by (simp_all add: sampleQueue_def reliableDb_def tagActionType_def)
  have b: "okExceptThird e (sampleQueue ! 2) = Rejected"
    "okExceptThird e (sampleQueue ! 0) = Resolved \<lparr>status = 200, headers = [], body = ''{}''\<rparr>"
    "ok \<lparr>status = 200, headers = [], body = ''{}''\<rparr>"
    "\<not> deleteFails reliableDb k" for e k
    by (simp_all add: sampleQueue_def okExceptThird_def ok_def reliableDb_def)
  note t2 = sync_deletes_only_on_success [OF h(1,2,3,4,6), of okExceptThird]
  note t0 = sync_deletes_only_on_success [OF h(1,2,3,5,7), of okExceptThird]
  have A: "sampleQueue ! 2 \<in> set (snd (syncEvent ''sync-challenge-completion'' reliableDb okExceptThird sampleQueue))"
    using t2 by (rule conjunct1)
  have "\<not> ((\<exists>r. okExceptThird (tagEndpoint ''sync-challenge-completion'') (sampleQueue ! 2) = Resolved r \<and> ok r)
            \<and> \<not> deleteFails reliableDb (itemId (sampleQueue ! 2)))"
    by (simp add: b)
  with t2 have B: "sampleQueue ! 2 \<in> set (fst (syncEvent ''sync-challenge-completion'' reliableDb okExceptThird sampleQueue))"
    by blast
  have "(\<exists>r. okExceptThird (tagEndpoint ''sync-challenge-completion'') (sampleQueue ! 0) = Resolved r \<and> ok r)
            \<and> \<not> deleteFails reliableDb (itemId (sampleQueue ! 0))"
    by (simp add: b)
  with t0 have C: "sampleQueue ! 0 \<notin> set (fst (syncEvent ''sync-challenge-completion'' reliableDb okExceptThird sampleQueue))"
    by blast
  from t2 B h(2,3) have D: "sampleQueue ! 2 \<in> set (snd (syncEvent ''sync-challenge-completion'' reliableDb (respondsWith 500)
        (fst (syncEvent ''sync-challenge-completion'' reliableDb okExceptThird sampleQueue))))"
    by blast
  show ?thesis using A B C D by simp
qed

theorem sync_deletes_only_on_success_counterexample:
  "respondsWith 200 ''/backend/api.php?action=complete_challenge'' (sampleQueue ! 0)
     = Resolved \<lparr>status = 200, headers = [], body = ''{}''\<rparr>
   \<and> ok \<lparr>status = 200, headers = [], body = ''{}''\<rparr>
   \<and> sampleQueue ! 0 \<in> set (snd (syncEvent ''sync-challenge-completion'' failingDeleteDb (respondsWith 200) sampleQueue))
   \<and> sampleQueue ! 0 \<in> set (fst (syncEvent ''sync-challenge-completion'' failingDeleteDb (respondsWith 200) sampleQueue))
   \<and> sampleQueue ! 0 \<in> set (fst (syncEvent ''sync-challenge-completion'' reliableDb (respondsWith 500) sampleQueue))
   \<and> sampleQueue ! 0 \<notin> set (snd (syncEvent ''sync-activity-data'' reliableDb (respondsWith 200)
        (fst (syncEvent ''sync-challenge-completion'' reliableDb (respondsWith 500) sampleQueue))))"
  by (simp add: syncEvent_def syncChallengeCompletions_def syncActivityData_def syncQueue_def
      sampleQueue_def respondsWith_def ok_def failingDeleteDb_def reliableDb_def deleteFromStore_def)

section \<open>The OAuth callback\<close>

text \<open>
  Claim C5. Every failed authentication ends in a 302 redirect to \<open>/auth.html\<close> with an
  \<open>error\<close> parameter that names the failure, and sets no cookie: the provider's error
  (its encoded text), a state that differs from the \<open>oauth_state\<close> cookie
  (\<open>invalid_state\<close>), a token exchange answered with a status that is not ok
  (\<open>token_exchange_failed\<close>), a userinfo request answered with a status that is not ok
  (\<open>failed_to_get_user\<close>), a thrown exception (\<open>callback_failed\<close>). The handler sets
  the session cookie in no other case than a redirect to \<open>/onboarding.html\<close>.
\<close>

theorem callback_failure_redirects:
  "(\<forall>e. queryError req = Some e \<and> e \<noteq> [] \<longrightarrow>
      errorRedirect (encodeURIComponent sv e) (callback_handler sv req))
   \<and> (\<not> providerError req \<and> stateMismatch req \<longrightarrow>
      errorRedirect ''invalid_state'' (callback_handler sv req))
   \<and> (\<forall>t. \<not> providerError req \<and> \<not> stateMismatch req \<and> \<not> exceptionThrown sv req
          \<and> tokenExchange sv req = Returns t \<and> \<not> tokenOk t \<longrightarrow>
      errorRedirect ''token_exchange_failed'' (callback_handler sv req))
   \<and> (\<forall>t a u. \<not> providerError req \<and> \<not> stateMismatch req
          \<and> tokenExchange sv req = Returns t \<and> tokenOk t \<and> tokenJson t = Returns a
          \<and> fetchUserInfo sv a = Returns u \<and> \<not> userOk u \<longrightarrow>
      errorRedirect ''failed_to_get_user'' (callback_handler sv req))
   \<and> (\<not> providerError req \<and> \<not> stateMismatch req \<and> exceptionThrown sv req \<longrightarrow>
      errorRedirect ''callback_failed'' (callback_handler sv req))
   \<and> (setCookie (callback_handler sv req) \<noteq> [] \<longrightarrow>
      location (callback_handler sv req) = ''/onboarding.html''
      \<and> \<not> providerError req \<and> \<not> stateMismatch req \<and> \<not> exceptionThrown sv req
      \<and> (\<exists>t a u. tokenExchange sv req = Returns t \<and> tokenOk t \<and> tokenJson t = Returns a
            \<and> fetchUserInfo sv a = Returns u \<and> userOk u))"
proof (intro conjI allI impI)
  fix e assume "queryError req = Some e \<and> e \<noteq> []"
  then show "errorRedirect (encodeURIComponent sv e) (callback_handler sv req)"
    by (simp add: callback_handler_def errorRedirect_def redirect_def providerError_def)
next
  assume "\<not> providerError req \<and> stateMismatch req"
  then show "errorRedirect ''invalid_state'' (callback_handler sv req)"
    by (simp add: callback_handler_def errorRedirect_def redirect_def providerError_def
        stateMismatch_def)
next
  fix t
  assume "\<not> providerError req \<and> \<not> stateMismatch req \<and> \<not> exceptionThrown sv req
          \<and> tokenExchange sv req = Returns t \<and> \<not> tokenOk t"
  then show "errorRedirect ''token_exchange_failed'' (callback_handler sv req)"
    by (auto simp: callback_handler_def errorRedirect_def redirect_def providerError_def
        stateMismatch_def tokenExchange_def exceptionThrown_def split: attempt.splits)
next
  fix t a u
  assume "\<not> providerError req \<and> \<not> stateMismatch req
          \<and> tokenExchange sv req = Returns t \<and> tokenOk t \<and> tokenJson t = Returns a
          \<and> fetchUserInfo sv a = Returns u \<and> \<not> userOk u"
  then show "errorRedirect ''failed_to_get_user'' (callback_handler sv req)"
    by (simp add: callback_handler_def errorRedirect_def redirect_def providerError_def
        stateMismatch_def tokenExchange_def)
next
  assume "\<not> providerError req \<and> \<not> stateMismatch req \<and> exceptionThrown sv req"
  then show "errorRedirect ''callback_failed'' (callback_handler sv req)"
    by (auto simp: callback_handler_def errorRedirect_def redirect_def providerError_def
        stateMismatch_def tokenExchange_def exceptionThrown_def callbackFailed_def
        split: attempt.splits if_splits)
next
  assume c: "setCookie (callback_handler sv req) \<noteq> []"
  then show "location (callback_handler sv req) = ''/onboarding.html''"
    by (auto simp: callback_handler_def redirect_def callbackFailed_def
        split: attempt.splits if_splits)
  from c show "\<not> providerError req"
    by (auto simp: callback_handler_def redirect_def providerError_def split: if_splits)
  from c show "\<not> stateMismatch req"
    by (auto simp: callback_handler_def redirect_def stateMismatch_def split: if_splits)
  from c show "\<not> exceptionThrown sv req"
    by (auto simp: callback_handler_def redirect_def callbackFailed_def exceptionThrown_def
        tokenExchange_def split: attempt.splits if_splits)
  from c show "\<exists>t a u. tokenExchange sv req = Returns t \<and> tokenOk t \<and> tokenJson t = Returns a
            \<and> fetchUserInfo sv a = Returns u \<and> userOk u"
    by (auto simp: callback_handler_def redirect_def callbackFailed_def
        tokenExchange_def split: attempt.splits if_splits)
qed


lemma sampleCallback_checks:
  "\<not> providerError sampleCallback" "\<not> stateMismatch sampleCallback"
  "stateMismatch (sampleCallback\<lparr>queryState := Some ''0000''\<rparr>)"
  "\<not> providerError (sampleCallback\<lparr>queryState := Some ''0000''\<rparr>)"
  by (simp_all add: providerError_def stateMismatch_def sampleCallback_def parseCookies_def
      parseCookie_def trim_def isSpace_def)

theorem callback_failure_redirects_witness:
  "errorRedirect ''access_denied''
     (callback_handler sampleServices (sampleCallback\<lparr>queryError := Some ''access_denied''\<rparr>))
   \<and> errorRedirect ''invalid_state''
     (callback_handler sampleServices (sampleCallback\<lparr>queryState := Some ''0000''\<rparr>))
   \<and> errorRedirect ''token_exchange_failed''
     (callback_handler
        (sampleServices\<lparr>exchangeCode := (\<lambda>c uri. Returns (sampleTokenResponse\<lparr>tokenOk := False\<rparr>))\<rparr>)
        sampleCallback)
   \<and> errorRedirect ''failed_to_get_user''
     (callback_handler
        (sampleServices\<lparr>fetchUserInfo := (\<lambda>t. Returns \<lparr>userOk = False, userJson = Throws\<rparr>)\<rparr>)
        sampleCallback)
   \<and> errorRedirect ''callback_failed''
     (callback_handler (sampleServices\<lparr>exchangeCode := (\<lambda>c uri. Throws)\<rparr>) sampleCallback)
   \<and> setCookie (callback_handler sampleServices sampleCallback) \<noteq> []
   \<and> location (callback_handler sampleServices sampleCallback) = ''/onboarding.html''"
proof -
  let ?sv3 = "sampleServices\<lparr>exchangeCode := (\<lambda>c uri. Returns (sampleTokenResponse\<lparr>tokenOk := False\<rparr>))\<rparr>"
  let ?sv4 = "sampleServices\<lparr>fetchUserInfo := (\<lambda>t. Returns \<lparr>userOk = False, userJson = Throws\<rparr>)\<rparr>"
  let ?sv5 = "sampleServices\<lparr>exchangeCode := (\<lambda>c uri. Throws)\<rparr>"
  have 1: "errorRedirect ''access_denied''
     (callback_handler sampleServices (sampleCallback\<lparr>queryError := Some ''access_denied''\<rparr>))"
    using callback_failure_redirects [of "sampleCallback\<lparr>queryError := Some ''access_denied''\<rparr>" sampleServices]
    by (simp add: sampleServices_def)
  have 2: "errorRedirect ''invalid_state''
     (callback_handler sampleServices (sampleCallback\<lparr>queryState := Some ''0000''\<rparr>))"
    using callback_failure_redirects [of "sampleCallback\<lparr>queryState := Some ''0000''\<rparr>" sampleServices]
      sampleCallback_checks by blast
  have "\<not> exceptionThrown ?sv3 sampleCallback
        \<and> tokenExchange ?sv3 sampleCallback = Returns (sampleTokenResponse\<lparr>tokenOk := False\<rparr>)
        \<and> \<not> tokenOk (sampleTokenResponse\<lparr>tokenOk := False\<rparr>)"
    by (simp add: exceptionThrown_def tokenExchange_def sampleServices_def sampleTokenResponse_def)
  then have 3: "errorRedirect ''token_exchange_failed'' (callback_handler ?sv3 sampleCallback)"
    using callback_failure_redirects [of sampleCallback ?sv3] sampleCallback_checks by blast
  have "tokenExchange ?sv4 sampleCallback = Returns sampleTokenResponse
        \<and> tokenOk sampleTokenResponse \<and> tokenJson sampleTokenResponse = Returns ''ya29.token''
        \<and> fetchUserInfo ?sv4 ''ya29.token'' = Returns \<lparr>userOk = False, userJson = Throws\<rparr>
        \<and> \<not> userOk \<lparr>userOk = False, userJson = Throws\<rparr>"
    by (simp add: tokenExchange_def sampleServices_def sampleTokenResponse_def)
  then have 4: "errorRedirect ''failed_to_get_user'' (callback_handler ?sv4 sampleCallback)"
    using callback_failure_redirects [of sampleCallback ?sv4] sampleCallback_checks by blast
  have "exceptionThrown ?sv5 sampleCallback"
    by (simp add: exceptionThrown_def tokenExchange_def sampleServices_def)
  then have 5: "errorRedirect ''callback_failed'' (callback_handler ?sv5 sampleCallback)"
    using callback_failure_redirects [of sampleCallback ?sv5] sampleCallback_checks by blast
  have 6: "setCookie (callback_handler sampleServices sampleCallback) \<noteq> []
           \<and> location (callback_handler sampleServices sampleCallback) = ''/onboarding.html''"
    using sampleCallback_checks
    by (simp add: callback_handler_def tokenExchange_def sampleServices_def sampleTokenResponse_def)
  show ?thesis using 1 2 3 4 5 6 by simp
qed

section \<open>Writes to localStorage\<close>

lemma writesOnly_refl: "st' = st \<Longrightarrow> writesOnly ks st st'"
  by (simp add: writesOnly_def)

lemma writesOnly_trans:
  "writesOnly ks st st' \<Longrightarrow> writesOnly ks st' st'' \<Longrightarrow> writesOnly ks st st''"
  by (simp add: writesOnly_def)

lemma writesOnly_mono: "writesOnly ks st st' \<Longrightarrow> ks \<subseteq> ks' \<Longrightarrow> writesOnly ks' st st'"
  by (auto simp: writesOnly_def)

lemma save_writes: "writesOnly {storageKey} (localStorage m) (localStorage (save m))"
  by (simp add: writesOnly_def save_def)

lemma checkBadges_writes:
  "writesOnly {storageKey} (localStorage m) (localStorage (snd (checkBadges m)))"
  by (simp add: checkBadges_def split_beta writesOnly_def save_def checkBadges_loop_frame)

lemma awardXP_writes:
  "writesOnly {storageKey} (localStorage m) (localStorage (snd (awardXP a s m)))"
proof -
  have "writesOnly {storageKey} (localStorage m) (localStorage (snd (checkBadges (addXP a s m))))"
    using checkBadges_writes [of "addXP a s m"] by simp
  then show ?thesis
    unfolding awardXP_snd using save_writes by (rule writesOnly_trans)
qed

lemma updateStreak_writes:
  "writesOnly {storageKey} (localStorage m) (localStorage (snd (updateStreak now m)))"
proof (cases "map_option toDateString (lastActivity (streak (data m))) = Some (toDateString now)")
  case True
  then show ?thesis by (simp add: updateStreak_same_day writesOnly_refl)
next
  case False
  let ?b = "calculateStreakBonus (current (advanceStreak now (streak (data m))))"
  let ?m2 = "if ?b > 0 then snd (awardXP ?b ''streak_bonus'' (streakStarted now m))
             else streakStarted now m"
  have "writesOnly {storageKey} (localStorage m) (localStorage ?m2)"
    using awardXP_writes [of "streakStarted now m"] by (simp add: writesOnly_refl)
  then have "writesOnly {storageKey} (localStorage m) (localStorage (snd (checkBadges ?m2)))"
    using checkBadges_writes by (rule writesOnly_trans)
  then have "writesOnly {storageKey} (localStorage m) (localStorage (save (snd (checkBadges ?m2))))"
    using save_writes by (rule writesOnly_trans)
  then show ?thesis by (simp add: updateStreak_other_day(1) [OF False])
qed

lemma logWorkout_writes:
  "writesOnly {storageKey} (localStorage m) (localStorage (snd (logWorkout w now m)))"
proof -
  let ?m2 = "snd (awardXP (workoutXP w) (''workout_'' @ orElse (workoutType w) ''general'')
          (workoutCounted w m))"
  have "writesOnly {storageKey} (localStorage m) (localStorage ?m2)"
    using awardXP_writes [of "workoutCounted w m"] by simp
  then show ?thesis
    unfolding logWorkout_snd using updateStreak_writes by (rule writesOnly_trans)
qed

lemma logSteps_writes:
  "writesOnly {storageKey} (localStorage m) (localStorage (snd (logSteps n m)))"
  using awardXP_writes [of "stepsCounted n m"] save_writes [of "stepsCounted n m"]
  by (simp add: logSteps_snd)

lemma completeChallenge_writes:
  "writesOnly {storageKey} (localStorage m) (localStorage (snd (completeChallenge c m)))"
  using awardXP_writes [of "challengeClosed c m"] by (simp add: completeChallenge_eq)

lemma joinChallenge_writes:
  "writesOnly {storageKey} (localStorage m) (localStorage (snd (joinChallenge c now m)))"
  by (simp add: joinChallenge_def Let_def writesOnly_def save_def)

lemma reset_writes: "writesOnly {storageKey} (localStorage m) (localStorage (reset m))"
  by (simp add: reset_def writesOnly_def save_def)

subsection \<open>The tracker\<close>

lemma tracker_save_writes:
  "writesOnly {tracker_storageKey} (trackerStorage t) (trackerStorage (tracker_save t))"
  by (simp add: writesOnly_def tracker_save_def)

lemma tracker_save_frame [simp]:
  "windowGamification (tracker_save t) = windowGamification t"
  by (simp add: tracker_save_def)

lemma getDay_frame [simp]:
  "trackerStorage (getDay k t) = trackerStorage t"
  "windowGamification (getDay k t) = windowGamification t"
  by (simp_all add: getDay_def split: option.splits)

lemma updateDay_frame [simp]:
  "trackerStorage (updateDay k f t) = trackerStorage t"
  "windowGamification (updateDay k f t) = windowGamification t"
  by (simp_all add: updateDay_def Let_def split: option.splits)

lemma dispatchUpdate_frame [simp]:
  "trackerStorage (dispatchUpdate now t) = trackerStorage t"
  "trackerStorage (getTodaySummary now t) = trackerStorage t"
  "trackerStorage (getDaySummary k t) = trackerStorage t"
  by (simp_all add: dispatchUpdate_def getTodaySummary_def getDaySummary_def)

lemma getWeekSummary_frame [simp]: "trackerStorage (getWeekSummary calendar now t) = trackerStorage t"
  by (simp add: getWeekSummary_def)

lemma seedDay_frame [simp]: "trackerStorage (seedDay calendar today draws t i) = trackerStorage t"
  by (simp add: seedDay_def Let_def split_beta)

lemma callGamification_storage:
  "trackerStorage (callGamification f t)
   = (case windowGamification t of
        None \<Rightarrow> trackerStorage t
      | Some g \<Rightarrow> localStorage (f (g\<lparr>localStorage := trackerStorage t\<rparr>)))"
  by (simp add: callGamification_def Let_def split: option.splits)

lemma callGamification_writes:
  assumes "\<And>g. writesOnly {storageKey} (localStorage g) (localStorage (f g))"
  shows "writesOnly {storageKey} (trackerStorage t) (trackerStorage (callGamification f t))"
proof (cases "windowGamification t")
  case None
  then show ?thesis by (simp add: callGamification_storage writesOnly_refl)
next
  case (Some g)
  then show ?thesis
    using assms [of "g\<lparr>localStorage := trackerStorage t\<rparr>"]
    by (simp add: callGamification_storage)
qed

lemma own_then_call_writes:
  assumes "\<And>g. writesOnly {storageKey} (localStorage g) (localStorage (f g))"
    and "trackerStorage t1 = trackerStorage t"
  shows "writesOnly {tracker_storageKey, storageKey} (trackerStorage t)
           (trackerStorage (callGamification f (tracker_save t1)))"
    and "windowGamification t1 = None \<Longrightarrow>
         writesOnly {tracker_storageKey} (trackerStorage t)
           (trackerStorage (callGamification f (tracker_save t1)))"
proof -
  have a: "writesOnly {tracker_storageKey} (trackerStorage t) (trackerStorage (tracker_save t1))"
    using tracker_save_writes [of t1] assms(2) by simp
  have b: "writesOnly {storageKey} (trackerStorage (tracker_save t1))
             (trackerStorage (callGamification f (tracker_save t1)))"
    using assms(1) by (rule callGamification_writes)
  show "writesOnly {tracker_storageKey, storageKey} (trackerStorage t)
           (trackerStorage (callGamification f (tracker_save t1)))"
    using a b by (auto simp: writesOnly_def)
  show "writesOnly {tracker_storageKey} (trackerStorage t)
           (trackerStorage (callGamification f (tracker_save t1)))"
    if "windowGamification t1 = None"
    using a that by (simp add: callGamification_storage)
qed

text \<open>
  Claim C7. The gamification manager saves under \<open>GamifyFit_gamification\<close> and the
  activity tracker under \<open>GamifyFit_activity\<close>. Every method of the gamification manager
  leaves every other key of \<open>localStorage\<close> as it was, and so does every method of the
  tracker that calls no other manager. \<open>logSteps\<close> and \<open>logActivity\<close> of the tracker also
  call \<open>window.Gamification\<close>: they leave every key but the two managers' keys as it
  was, only their own key when that global is absent, and otherwise the storage they leave
  is the one the called gamification method returns, run on the storage after the
  tracker's own save.
\<close>

theorem managers_write_own_key:
  "storageKey = ''GamifyFit_gamification'' \<and> tracker_storageKey = ''GamifyFit_activity''
   \<and> writesOnly {storageKey} (localStorage m) (localStorage (save m))
   \<and> writesOnly {storageKey} (localStorage m) (localStorage (snd (awardXP amount source m)))
   \<and> writesOnly {storageKey} (localStorage m) (localStorage (snd (updateStreak now m)))
   \<and> writesOnly {storageKey} (localStorage m) (localStorage (snd (checkBadges m)))
   \<and> writesOnly {storageKey} (localStorage m) (localStorage (snd (logWorkout w now m)))
   \<and> writesOnly {storageKey} (localStorage m) (localStorage (snd (logSteps n m)))
   \<and> writesOnly {storageKey} (localStorage m) (localStorage (snd (completeChallenge c m)))
   \<and> writesOnly {storageKey} (localStorage m) (localStorage (snd (joinChallenge c now m)))
   \<and> writesOnly {storageKey} (localStorage m) (localStorage (reset m))
   \<and> writesOnly {tracker_storageKey} (trackerStorage t) (trackerStorage (tracker_save t))
   \<and> writesOnly {tracker_storageKey} (trackerStorage t) (trackerStorage (enableTracking t))
   \<and> writesOnly {tracker_storageKey} (trackerStorage t) (trackerStorage (logCalories n now t))
   \<and> writesOnly {tracker_storageKey} (trackerStorage t) (trackerStorage (logActiveMinutes n now t))
   \<and> writesOnly {tracker_storageKey} (trackerStorage t) (trackerStorage (logWater n now t))
   \<and> writesOnly {tracker_storageKey} (trackerStorage t) (trackerStorage (logWeight kg now t))
   \<and> writesOnly {tracker_storageKey} (trackerStorage t) (trackerStorage (setGoals newGoals t))
   \<and> writesOnly {tracker_storageKey} (trackerStorage t) (trackerStorage (resetToday now t))
   \<and> writesOnly {tracker_storageKey} (trackerStorage t) (trackerStorage (seedDemoData calendar now draws t))
   \<and> trackerStorage (getDay dateKey t) = trackerStorage t
   \<and> trackerStorage (getDaySummary dateKey t) = trackerStorage t
   \<and> trackerStorage (getTodaySummary now t) = trackerStorage t
   \<and> trackerStorage (getWeekSummary calendar now t) = trackerStorage t
   \<and> trackerStorage (getWeekTotals calendar now t) = trackerStorage t
   \<and> trackerStorage (getStatus now t) = trackerStorage t
   \<and> trackerStorage (dispatchUpdate now t) = trackerStorage t
   \<and> writesOnly {tracker_storageKey, storageKey} (trackerStorage t)
        (trackerStorage (tracker_logSteps n now t))
   \<and> writesOnly {tracker_storageKey, storageKey} (trackerStorage t)
        (trackerStorage (logActivity a now t))
   \<and> (windowGamification t = None \<longrightarrow>
        writesOnly {tracker_storageKey} (trackerStorage t) (trackerStorage (tracker_logSteps n now t))
        \<and> writesOnly {tracker_storageKey} (trackerStorage t) (trackerStorage (logActivity a now t)))
   \<and> (\<forall>g. windowGamification t = Some g \<longrightarrow>
        (\<exists>st. writesOnly {tracker_storageKey} (trackerStorage t) st
           \<and> trackerStorage (tracker_logSteps n now t)
             = localStorage (snd (logSteps n (g\<lparr>localStorage := st\<rparr>))))
        \<and> (\<exists>st wk. writesOnly {tracker_storageKey} (trackerStorage t) st
           \<and> trackerStorage (logActivity a now t)
             = localStorage (snd (logWorkout wk now (g\<lparr>localStorage := st\<rparr>)))))"
proof -
  have own: "writesOnly {tracker_storageKey} (trackerStorage t) (trackerStorage (tracker_save t1))"
    if "trackerStorage t1 = trackerStorage t" for t1
    using tracker_save_writes [of t1] that by simp
  have seed: "trackerStorage (foldl (seedDay calendar now draws) t is) = trackerStorage t" for "is"
    by (induction "is" arbitrary: t) simp_all
  let ?steps = "updateDay (todayKey now)
                 (\<lambda>d. d\<lparr>daySteps := daySteps d + n, dayLastUpdated := Some now\<rparr>) t"
  let ?wk = "\<lparr>duration = Some (orZero (inputDuration a)),
                     calories = Some (orZero (inputCalories a)),
                     workoutType = Some (orElse (inputType a) ''general'')\<rparr>"
  let ?act = "updateDay (todayKey now)
                 (\<lambda>d. d\<lparr>daySteps := daySteps d + orZero (inputSteps a),
                         dayCalories := dayCalories d + orZero (inputCalories a),
                         dayActiveMinutes := dayActiveMinutes d + orZero (inputDuration a),
                         dayActivities := dayActivities d @
                           [\<lparr>actType = orElse (inputType a) ''general'',
                             actDuration = orZero (inputDuration a),
                             actCalories = orZero (inputCalories a),
                             actSteps = orZero (inputSteps a),
                             actNotes = orElse (inputNotes a) [],
                             actTimestamp = now\<rparr>],
                         dayLastUpdated := Some now\<rparr>) t"
  have ls: "trackerStorage (tracker_logSteps n now t)
            = trackerStorage (callGamification (\<lambda>g. snd (logSteps n g)) (tracker_save ?steps))"
    by (simp add: tracker_logSteps_def Let_def)
  have la: "trackerStorage (logActivity a now t)
            = trackerStorage (callGamification (\<lambda>g. snd (logWorkout ?wk now g)) (tracker_save ?act))"
    by (simp add: logActivity_def Let_def)
  have gam: "writesOnly {storageKey} (localStorage m) (localStorage (save m))
   \<and> writesOnly {storageKey} (localStorage m) (localStorage (snd (awardXP amount source m)))
   \<and> writesOnly {storageKey} (localStorage m) (localStorage (snd (updateStreak now m)))
   \<and> writesOnly {storageKey} (localStorage m) (localStorage (snd (checkBadges m)))
   \<and> writesOnly {storageKey} (localStorage m) (localStorage (snd (logWorkout w now m)))
   \<and> writesOnly {storageKey} (localStorage m) (localStorage (snd (logSteps n m)))
   \<and> writesOnly {storageKey} (localStorage m) (localStorage (snd (completeChallenge c m)))
   \<and> writesOnly {storageKey} (localStorage m) (localStorage (snd (joinChallenge c now m)))
   \<and> writesOnly {storageKey} (localStorage m) (localStorage (reset m))"
    by (simp add: save_writes awardXP_writes updateStreak_writes checkBadges_writes
        logWorkout_writes logSteps_writes completeChallenge_writes joinChallenge_writes
        reset_writes)
  have tr: "writesOnly {tracker_storageKey} (trackerStorage t) (trackerStorage (tracker_save t))
   \<and> writesOnly {tracker_storageKey} (trackerStorage t) (trackerStorage (enableTracking t))
   \<and> writesOnly {tracker_storageKey} (trackerStorage t) (trackerStorage (logCalories n now t))
   \<and> writesOnly {tracker_storageKey} (trackerStorage t) (trackerStorage (logActiveMinutes n now t))
   \<and> writesOnly {tracker_storageKey} (trackerStorage t) (trackerStorage (logWater n now t))
   \<and> writesOnly {tracker_storageKey} (trackerStorage t) (trackerStorage (logWeight kg now t))
   \<and> writesOnly {tracker_storageKey} (trackerStorage t) (trackerStorage (setGoals newGoals t))
   \<and> writesOnly {tracker_storageKey} (trackerStorage t) (trackerStorage (resetToday now t))
   \<and> writesOnly {tracker_storageKey} (trackerStorage t) (trackerStorage (seedDemoData calendar now draws t))"
    by (simp add: own enableTracking_def logCalories_def logActiveMinutes_def logWater_def
        logWeight_def setGoals_def resetToday_def seedDemoData_def Let_def seed)
  have rd: "trackerStorage (getDay dateKey t) = trackerStorage t
   \<and> trackerStorage (getDaySummary dateKey t) = trackerStorage t
   \<and> trackerStorage (getTodaySummary now t) = trackerStorage t
   \<and> trackerStorage (getWeekSummary calendar now t) = trackerStorage t
   \<and> trackerStorage (getWeekTotals calendar now t) = trackerStorage t
   \<and> trackerStorage (getStatus now t) = trackerStorage t
   \<and> trackerStorage (dispatchUpdate now t) = trackerStorage t"
    by (simp add: getWeekTotals_def getStatus_def)
  have both: "writesOnly {tracker_storageKey, storageKey} (trackerStorage t)
        (trackerStorage (tracker_logSteps n now t))
   \<and> writesOnly {tracker_storageKey, storageKey} (trackerStorage t)
        (trackerStorage (logActivity a now t))"
    unfolding ls la
    by (intro conjI own_then_call_writes(1) logSteps_writes logWorkout_writes) simp_all
  have none: "windowGamification t = None \<longrightarrow>
        writesOnly {tracker_storageKey} (trackerStorage t) (trackerStorage (tracker_logSteps n now t))
        \<and> writesOnly {tracker_storageKey} (trackerStorage t) (trackerStorage (logActivity a now t))"
    unfolding ls la
    by (intro impI conjI own_then_call_writes(2) logSteps_writes logWorkout_writes) simp_all
  have some: "(\<exists>st. writesOnly {tracker_storageKey} (trackerStorage t) st
           \<and> trackerStorage (tracker_logSteps n now t)
             = localStorage (snd (logSteps n (g\<lparr>localStorage := st\<rparr>))))
        \<and> (\<exists>st wk. writesOnly {tracker_storageKey} (trackerStorage t) st
           \<and> trackerStorage (logActivity a now t)
             = localStorage (snd (logWorkout wk now (g\<lparr>localStorage := st\<rparr>))))"
    if g: "windowGamification t = Some g" for g
  proof (intro conjI)
    show "\<exists>st. writesOnly {tracker_storageKey} (trackerStorage t) st
           \<and> trackerStorage (tracker_logSteps n now t)
             = localStorage (snd (logSteps n (g\<lparr>localStorage := st\<rparr>)))"
      using own [of ?steps] g
      by (intro exI [of _ "trackerStorage (tracker_save ?steps)"])
         (simp add: ls callGamification_storage)
    show "\<exists>st wk. writesOnly {tracker_storageKey} (trackerStorage t) st
           \<and> trackerStorage (logActivity a now t)
             = localStorage (snd (logWorkout wk now (g\<lparr>localStorage := st\<rparr>)))"
      using own [of ?act] g
      by (intro exI [of _ "trackerStorage (tracker_save ?act)"] exI [of _ ?wk])
         (simp add: la callGamification_storage)
  qed
  show ?thesis
    using gam tr rd both none some
    by (simp add: storageKey_def tracker_storageKey_def)
qed


theorem managers_write_own_key_witness:
  "trackerStorage (tracker_logSteps 250 sampleNow (sampleTracker (Some (sampleManager None))))
     ''GamifyFit_workout_plan'' = Some (GamificationJSON getDefaultData)
   \<and> trackerStorage (logActivity
        \<lparr>inputType = Some ''run'', inputDuration = Some 30, inputCalories = Some 250,
         inputSteps = None, inputNotes = None\<rparr> sampleNow (sampleTracker None))
     ''GamifyFit_gamification'' = None
   \<and> trackerStorage (logWater 2 sampleNow (sampleTracker None)) ''GamifyFit_gamification'' = None
   \<and> localStorage (snd (awardXP 40 ''manual''
        ((sampleManager None)\<lparr>localStorage := trackerStorage (sampleTracker None)\<rparr>)))
     ''GamifyFit_workout_plan'' = Some (GamificationJSON getDefaultData)"
proof -
  let ?a = "\<lparr>inputType = Some ''run'', inputDuration = Some 30, inputCalories = Some 250,
         inputSteps = None, inputNotes = None\<rparr>"
  have k: "''GamifyFit_workout_plan'' \<notin> {tracker_storageKey, storageKey}"
    "''GamifyFit_gamification'' \<notin> {tracker_storageKey}"
    "''GamifyFit_workout_plan'' \<notin> {storageKey}"
    by (simp_all add: tracker_storageKey_def storageKey_def)
  have s: "trackerStorage (sampleTracker g) ''GamifyFit_workout_plan'' = Some (GamificationJSON getDefaultData)"
    "trackerStorage (sampleTracker g) ''GamifyFit_gamification'' = None"
    "windowGamification (sampleTracker None) = None" for g
    by (simp_all add: sampleTracker_def)
  note t1 = managers_write_own_key [where now = sampleNow and n = 250
      and t = "sampleTracker (Some (sampleManager None))"]
  note t2 = managers_write_own_key [where now = sampleNow and n = 2 and t = "sampleTracker None"
      and a = ?a]
  note t3 = managers_write_own_key [of "(sampleManager None)\<lparr>localStorage := trackerStorage (sampleTracker None)\<rparr>" 40 "''manual''"]
  have 1: "trackerStorage (tracker_logSteps 250 sampleNow (sampleTracker (Some (sampleManager None))))
     ''GamifyFit_workout_plan'' = Some (GamificationJSON getDefaultData)"
    using t1 s(1) by (simp add: writesOnly_def tracker_storageKey_def storageKey_def)
  have 2: "trackerStorage (logActivity ?a sampleNow (sampleTracker None)) ''GamifyFit_gamification'' = None"
    using t2 s(2,3) by (simp add: writesOnly_def tracker_storageKey_def storageKey_def)
  have 3: "trackerStorage (logWater 2 sampleNow (sampleTracker None)) ''GamifyFit_gamification'' = None"
    using t2 s(2) by (simp add: writesOnly_def tracker_storageKey_def storageKey_def)
  have 4: "localStorage (snd (awardXP 40 ''manual''
        ((sampleManager None)\<lparr>localStorage := trackerStorage (sampleTracker None)\<rparr>)))
     ''GamifyFit_workout_plan'' = Some (GamificationJSON getDefaultData)"
    using t3 s(1) [of None] by (simp add: writesOnly_def tracker_storageKey_def storageKey_def)
  show ?thesis using 1 2 3 4 by simp
qed

end
